theory Spec2Isabelle
  imports Complex_Main
begin

section \<open>Distance calculator and perimeter validator (src/utils/location.ts)\<close>

text \<open>
  Coordinates and distances are modelled as exact reals: the GraphQL \<open>Float\<close> inputs and
  the coordinates of the Geolocation API are finite, and the rounding of the distance
  computation is not modelled. \<open>Math.atan2\<close> is written out quadrant by quadrant. The
  arithmetic of shift hours is modelled in doubles, further down.
\<close>

definition atan2 :: "real \<Rightarrow> real \<Rightarrow> real" where
  "atan2 y x =
     (if 0 < x then arctan (y / x)
      else if x < 0 then (if 0 \<le> y then arctan (y / x) + pi else arctan (y / x) - pi)
      else if 0 < y then pi / 2
      else if y < 0 then - (pi / 2)
      else 0)"

text \<open>The haversine term \<open>a\<close> of \<open>calculateDistance\<close>.\<close>

definition haversine_a :: "real \<Rightarrow> real \<Rightarrow> real \<Rightarrow> real \<Rightarrow> real" where
  "haversine_a lat1 lng1 lat2 lng2 =
     (let phi1 = lat1 * pi / 180;
          phi2 = lat2 * pi / 180;
          dphi = (lat2 - lat1) * pi / 180;
          dlambda = (lng2 - lng1) * pi / 180
      in sin (dphi / 2) * sin (dphi / 2) +
         cos phi1 * cos phi2 * sin (dlambda / 2) * sin (dlambda / 2))"

definition calculateDistance :: "real \<Rightarrow> real \<Rightarrow> real \<Rightarrow> real \<Rightarrow> real" where
  "calculateDistance lat1 lng1 lat2 lng2 =
     (let R = 6371000;
          a = haversine_a lat1 lng1 lat2 lng2;
          c = 2 * atan2 (sqrt a) (sqrt (1 - a))
      in R * c)"

definition isWithinPerimeter :: "real \<Rightarrow> real \<Rightarrow> real \<Rightarrow> real \<Rightarrow> real \<Rightarrow> bool" where
  "isWithinPerimeter userLat userLng facilityLat facilityLng perimeterRadius =
     (let distance = calculateDistance userLat userLng facilityLat facilityLng
      in distance \<le> perimeterRadius)"

section \<open>The record store (the Prisma models as src/lib/graphql/resolvers.ts uses them)\<close>

text \<open>
  Identifiers are strings and a \<open>Date\<close> is its time value in milliseconds. A nullable
  column is an \<open>option\<close>. The \<open>createdAt\<close>/\<open>updatedAt\<close> columns are maintained by the
  ORM, never read or written by the resolvers, and are left out. A table is the list of
  its rows in insertion order.
\<close>

datatype UserRole = MANAGER | CARE_WORKER

record Organization =
  org_id :: string
  org_name :: string
  locationLat :: real
  locationLng :: real
  perimeterRadius :: real

record User =
  user_id :: string
  email :: string
  user_name :: string
  role :: "UserRole option"
  organizationId :: "string option"
  auth0Id :: "string option"

text \<open>A user row read with \<open>include: { organization: true }\<close>.\<close>

record UserWithOrg = User +
  organization :: "Organization option"

record Shift =
  shift_id :: string
  userId :: string
  clockInTime :: int
  clockOutTime :: "int option"
  clockInLat :: real
  clockInLng :: real
  clockOutLat :: "real option"
  clockOutLng :: "real option"
  clockInNote :: "string option"
  clockOutNote :: "string option"
  totalHours :: "real option"

text \<open>The two events the clock mutations publish on the in-process \<open>pubsub\<close>.\<close>

datatype event = SHIFT_UPDATED Shift | STAFF_STATUS_CHANGED UserWithOrg

record store =
  users :: "User list"
  organizations :: "Organization list"
  shifts :: "Shift list"
  published :: "event list"

text \<open>
  What a request reads from the server besides the store: the clock (\<open>new Date()\<close>) and
  the identifier the ORM gives a created row.
\<close>

record env =
  now :: int
  newId :: string

datatype error = Error string | TypeError | RecordNotFound

record ClockInput =
  lat :: real
  lng :: real
  input_note :: "string option"

record UpdatePerimeterInput =
  input_locationLat :: real
  input_locationLng :: real
  input_perimeterRadius :: real

record Context =
  authorization :: "string option"

text \<open>
  The context of a request, as far as \<open>getUser\<close> reads it: the \<open>authorization\<close> header.
  \<open>jwt.verify\<close> is a library call: it is a parameter, giving the \<open>userId\<close> of the payload of
  a token it accepts and \<open>None\<close> where it throws.
\<close>

type_synonym verifier = "string \<Rightarrow> string option"

subsection \<open>Queries of the ORM\<close>

definition include_organization :: "store \<Rightarrow> User \<Rightarrow> UserWithOrg" where
  "include_organization st u =
     \<lparr>user_id = user_id u, email = email u, user_name = user_name u, role = role u,
      organizationId = organizationId u, auth0Id = auth0Id u,
      organization =
        (case organizationId u of
           None \<Rightarrow> None
         | Some oid \<Rightarrow> find (\<lambda>org. org_id org = oid) (organizations st))\<rparr>"

definition user_findUnique_id :: "store \<Rightarrow> string \<Rightarrow> UserWithOrg option" where
  "user_findUnique_id st uid =
     map_option (include_organization st) (find (\<lambda>u. user_id u = uid) (users st))"

definition user_findUnique_auth0Id :: "store \<Rightarrow> string \<Rightarrow> UserWithOrg option" where
  "user_findUnique_auth0Id st a =
     map_option (include_organization st) (find (\<lambda>u. auth0Id u = Some a) (users st))"

text \<open>\<open>prisma.shift.findFirst({ where: { userId, clockOutTime: null } })\<close>\<close>

definition shift_findFirst_open :: "store \<Rightarrow> string \<Rightarrow> Shift option" where
  "shift_findFirst_open st uid =
     find (\<lambda>s. userId s = uid \<and> clockOutTime s = None) (shifts st)"

definition shift_create :: "Shift \<Rightarrow> store \<Rightarrow> store" where
  "shift_create s st = st\<lparr>shifts := shifts st @ [s]\<rparr>"

text \<open>\<open>prisma.shift.update({ where: { id }, data })\<close>: the row of that id gets the data.\<close>

definition shift_update :: "string \<Rightarrow> (Shift \<Rightarrow> Shift) \<Rightarrow> store \<Rightarrow> store" where
  "shift_update sid f st =
     st\<lparr>shifts := map (\<lambda>s. if shift_id s = sid then f s else s) (shifts st)\<rparr>"

text \<open>\<open>prisma.organization.update\<close> throws when no row has the id.\<close>

definition organization_update ::
  "string \<Rightarrow> (Organization \<Rightarrow> Organization) \<Rightarrow> store \<Rightarrow> (error + Organization) \<times> store" where
  "organization_update oid f st =
     (case find (\<lambda>org. org_id org = oid) (organizations st) of
        None \<Rightarrow> (Inl RecordNotFound, st)
      | Some org \<Rightarrow>
          (Inr (f org),
           st\<lparr>organizations :=
                map (\<lambda>org. if org_id org = oid then f org else org) (organizations st)\<rparr>))"

definition publish :: "event \<Rightarrow> store \<Rightarrow> store" where
  "publish ev st = st\<lparr>published := published st @ [ev]\<rparr>"

subsection \<open>Authentication (src/utils/auth.ts and getUser)\<close>

text \<open>\<open>String.prototype.split\<close> on a one-character separator.\<close>

fun split_on :: "char \<Rightarrow> string \<Rightarrow> string list" where
  "split_on c [] = [[]]"
| "split_on c (x # xs) =
     (if x = c then [] # split_on c xs
      else (case split_on c xs of
              [] \<Rightarrow> [[x]]
            | w # ws \<Rightarrow> (x # w) # ws))"

definition extractTokenFromHeader :: "string option \<Rightarrow> string option" where
  "extractTokenFromHeader authHeader =
     (case authHeader of
        None \<Rightarrow> None
      | Some h \<Rightarrow>
          if h = [] then None
          else (case split_on CHR '' '' h of
                  bearer # token # _ \<Rightarrow>
                    if bearer \<noteq> ''Bearer'' \<or> token = [] then None else Some token
                | _ \<Rightarrow> None))"

text \<open>Every failure inside \<open>getUser\<close> is rethrown as \<open>Authentication required\<close>.\<close>

definition getUser :: "verifier \<Rightarrow> Context \<Rightarrow> store \<Rightarrow> error + UserWithOrg" where
  "getUser verifyToken ctx st =
     (case extractTokenFromHeader (authorization ctx) of
        None \<Rightarrow> Inl (Error ''Authentication required'')
      | Some token \<Rightarrow>
          (case verifyToken token of
             None \<Rightarrow> Inl (Error ''Authentication required'')
           | Some payload_userId \<Rightarrow>
               (case user_findUnique_id st payload_userId of
                  None \<Rightarrow> Inl (Error ''Authentication required'')
                | Some user \<Rightarrow> Inr user)))"

subsection \<open>Shift duration\<close>

text \<open>
  The hours of a shift are computed in JavaScript numbers, which are IEEE 754 doubles. A
  double is modelled as the real it denotes, and an operation as the exact result
  rounded to the nearest double, a tie going to the even significand: \<open>to_double\<close>,
  with 53 significant bits. The ends of the exponent range (overflow, subnormal numbers)
  are not modelled: the time value of a \<open>Date\<close> is an integer of magnitude at most
  8.64e15, and nothing \<open>calculateShiftHours\<close> computes from two of them comes near those
  ends.
\<close>

definition round_even :: "real \<Rightarrow> int" where
  "round_even y =
     (let f = \<lfloor>y\<rfloor>; d = y - of_int f
      in if d < 1 / 2 then f else if 1 / 2 < d then f + 1 else if even f then f else f + 1)"

definition pow2 :: "int \<Rightarrow> real" where
  "pow2 k = (if 0 \<le> k then 2 ^ nat k else 1 / 2 ^ nat (- k))"

definition to_double :: "real \<Rightarrow> real" where
  "to_double x =
     (if x = 0 then 0
      else (let e = \<lfloor>log 2 \<bar>x\<bar>\<rfloor>; ulp = pow2 (e - 52)
            in of_int (round_even (x / ulp)) * ulp))"

text \<open>\<open>Math.round\<close>: the nearest integer, a tie going up; its result is exact.\<close>

definition Math_round :: "real \<Rightarrow> real" where
  "Math_round x = of_int \<lfloor>x + 1 / 2\<rfloor>"

text \<open>
  \<open>calculateShiftHours\<close>; the clock stands for \<open>new Date()\<close> when \<open>clockOut\<close> is absent.
  The subtraction, the division and the multiplication each round; the constants are
  exact.
\<close>

definition calculateShiftHours :: "int \<Rightarrow> int \<Rightarrow> int option \<Rightarrow> real" where
  "calculateShiftHours clock clockIn_t clockOut_t =
     (let endTime = (case clockOut_t of Some t \<Rightarrow> t | None \<Rightarrow> clock);
          hours = to_double (to_double (of_int endTime - of_int clockIn_t) / (1000 * 60 * 60))
      in to_double (Math_round (to_double (hours * 100)) / 100))"


section \<open>The clock mutations (src/lib/graphql/resolvers.ts)\<close>

text \<open>
  A resolver is a function from the store to its result and the store it leaves. A thrown
  \<open>Error\<close> is \<open>Inl\<close> with its message: \<open>You are already clocked in\<close> is the
  specification's AlreadyClockedIn, \<open>You are not currently clocked in\<close> and
  \<open>No active shift found\<close> its NoActiveShift, \<open>You must be within the \<dots> perimeter to
  clock in/out\<close> its OutsidePerimeter, \<open>Organization not found for user\<close> its
  OrganizationNotFound. Reading a field of a null \<open>user.organization\<close> is a \<open>TypeError\<close>.
  A created shift has every column the \<open>data\<close> does not name at null.
\<close>

definition new_shift :: "env \<Rightarrow> string \<Rightarrow> ClockInput \<Rightarrow> Shift" where
  "new_shift e uid input =
     \<lparr>shift_id = newId e, userId = uid, clockInTime = now e, clockOutTime = None,
      clockInLat = lat input, clockInLng = lng input,
      clockOutLat = None, clockOutLng = None,
      clockInNote = input_note input, clockOutNote = None, totalHours = None\<rparr>"

text \<open>The \<open>data\<close> of the clock-out update; an undefined \<open>note\<close> leaves the column as it is.\<close>

definition close_shift :: "int \<Rightarrow> real \<Rightarrow> ClockInput \<Rightarrow> Shift \<Rightarrow> Shift" where
  "close_shift clockOut_t hours input s =
     s\<lparr>clockOutTime := Some clockOut_t,
       clockOutLat := Some (lat input),
       clockOutLng := Some (lng input),
       clockOutNote := (case input_note input of None \<Rightarrow> clockOutNote s | Some n \<Rightarrow> Some n),
       totalHours := Some hours\<rparr>"

definition within_organization :: "ClockInput \<Rightarrow> Organization \<Rightarrow> bool" where
  "within_organization input org =
     isWithinPerimeter (lat input) (lng input)
       (locationLat org) (locationLng org) (perimeterRadius org)"

definition clockIn ::
  "verifier \<Rightarrow> env \<Rightarrow> Context \<Rightarrow> ClockInput \<Rightarrow> store \<Rightarrow> (error + Shift) \<times> store" where
  "clockIn verifyToken e ctx input st =
     (case getUser verifyToken ctx st of
        Inl err \<Rightarrow> (Inl err, st)
      | Inr user \<Rightarrow>
          if role user \<noteq> Some CARE_WORKER
          then (Inl (Error ''Only care workers can clock in''), st)
          else (case shift_findFirst_open st (user_id user) of
                  Some existingShift \<Rightarrow> (Inl (Error ''You are already clocked in''), st)
                | None \<Rightarrow>
                    (case organization user of
                       None \<Rightarrow> (Inl (Error ''Organization not found for user''), st)
                     | Some org \<Rightarrow>
                         if \<not> within_organization input org
                         then (Inl (Error ''You must be within the facility perimeter to clock in''), st)
                         else (let shift = new_shift e (user_id user) input
                               in (Inr shift,
                                   publish (STAFF_STATUS_CHANGED user)
                                     (publish (SHIFT_UPDATED shift) (shift_create shift st)))))))"

definition clockInByAuth0Id ::
  "env \<Rightarrow> string \<Rightarrow> ClockInput \<Rightarrow> store \<Rightarrow> (error + Shift) \<times> store" where
  "clockInByAuth0Id e a input st =
     (case user_findUnique_auth0Id st a of
        None \<Rightarrow> (Inl (Error ''User not found''), st)
      | Some user \<Rightarrow>
          (case shift_findFirst_open st (user_id user) of
             Some existingShift \<Rightarrow> (Inl (Error ''You are already clocked in''), st)
           | None \<Rightarrow>
               (case organization user of
                  None \<Rightarrow> (Inl TypeError, st)
                | Some org \<Rightarrow>
                    if \<not> within_organization input org
                    then (Inl (Error ''You must be within the organization perimeter to clock in''), st)
                    else (let shift = new_shift e (user_id user) input
                          in (Inr shift,
                              publish (STAFF_STATUS_CHANGED user)
                                (publish (SHIFT_UPDATED shift) (shift_create shift st)))))))"

definition clockOut ::
  "verifier \<Rightarrow> env \<Rightarrow> Context \<Rightarrow> ClockInput \<Rightarrow> store \<Rightarrow> (error + Shift) \<times> store" where
  "clockOut verifyToken e ctx input st =
     (case getUser verifyToken ctx st of
        Inl err \<Rightarrow> (Inl err, st)
      | Inr user \<Rightarrow>
          if role user \<noteq> Some CARE_WORKER
          then (Inl (Error ''Only care workers can clock out''), st)
          else (case shift_findFirst_open st (user_id user) of
                  None \<Rightarrow> (Inl (Error ''You are not currently clocked in''), st)
                | Some currentShift \<Rightarrow>
                    (case organization user of
                       None \<Rightarrow> (Inl (Error ''Organization not found for user''), st)
                     | Some org \<Rightarrow>
                         if \<not> within_organization input org
                         then (Inl (Error ''You must be within the facility perimeter to clock out''), st)
                         else (let clockOut_t = now e;
                                   hours = calculateShiftHours (now e)
                                             (clockInTime currentShift) (Some clockOut_t);
                                   shift = close_shift clockOut_t hours input currentShift
                               in (Inr shift,
                                   publish (STAFF_STATUS_CHANGED user)
                                     (publish (SHIFT_UPDATED shift)
                                        (shift_update (shift_id currentShift)
                                           (close_shift clockOut_t hours input) st)))))))"

definition clockOutByAuth0Id ::
  "env \<Rightarrow> string \<Rightarrow> ClockInput \<Rightarrow> store \<Rightarrow> (error + Shift) \<times> store" where
  "clockOutByAuth0Id e a input st =
     (case user_findUnique_auth0Id st a of
        None \<Rightarrow> (Inl (Error ''User not found''), st)
      | Some user \<Rightarrow>
          (case shift_findFirst_open st (user_id user) of
             None \<Rightarrow> (Inl (Error ''No active shift found''), st)
           | Some shift \<Rightarrow>
               (case organization user of
                  None \<Rightarrow> (Inl TypeError, st)
                | Some org \<Rightarrow>
                    if \<not> within_organization input org
                    then (Inl (Error ''You must be within the organization perimeter to clock out''), st)
                    else (let clockOut_t = now e;
                              hours = calculateShiftHours (now e)
                                        (clockInTime shift) (Some clockOut_t);
                              updatedShift = close_shift clockOut_t hours input shift
                          in (Inr updatedShift,
                              publish (STAFF_STATUS_CHANGED user)
                                (publish (SHIFT_UPDATED updatedShift)
                                   (shift_update (shift_id shift)
                                      (close_shift clockOut_t hours input) st)))))))"

text \<open>\<open>currentShiftByAuth0Id\<close>, the query the tracker asks.\<close>

definition currentShiftByAuth0Id :: "string \<Rightarrow> store \<Rightarrow> error + Shift option" where
  "currentShiftByAuth0Id a st =
     (case user_findUnique_auth0Id st a of
        None \<Rightarrow> Inl (Error ''User not found'')
      | Some user \<Rightarrow> Inr (shift_findFirst_open st (user_id user)))"

subsection \<open>Two clock-in requests in flight\<close>

text \<open>
  \<open>clockIn\<close> is an \<open>async\<close> function: it gives up control at each \<open>await\<close>, and the store
  operation it waits for is served at some later moment. Between two awaits it runs
  alone. Its phases are the three store operations it awaits: the user read of
  \<open>getUser\<close>, the \<open>findFirst\<close> of an open shift, the \<open>create\<close>. The checks that follow
  an operation belong to its step.
\<close>

datatype phase =
    AwaitGetUser
  | AwaitFindFirst UserWithOrg
  | AwaitCreate UserWithOrg
  | Returned "error + Shift"

record call =
  call_env :: env
  call_context :: Context
  call_input :: ClockInput

fun clockIn_step :: "verifier \<Rightarrow> call \<Rightarrow> phase \<Rightarrow> store \<Rightarrow> phase \<times> store" where
  "clockIn_step v c AwaitGetUser st =
     (case getUser v (call_context c) st of
        Inl err \<Rightarrow> (Returned (Inl err), st)
      | Inr user \<Rightarrow>
          if role user \<noteq> Some CARE_WORKER
          then (Returned (Inl (Error ''Only care workers can clock in'')), st)
          else (AwaitFindFirst user, st))"
| "clockIn_step v c (AwaitFindFirst user) st =
     (case shift_findFirst_open st (user_id user) of
        Some existingShift \<Rightarrow> (Returned (Inl (Error ''You are already clocked in'')), st)
      | None \<Rightarrow>
          (case organization user of
             None \<Rightarrow> (Returned (Inl (Error ''Organization not found for user'')), st)
           | Some org \<Rightarrow>
               if \<not> within_organization (call_input c) org
               then (Returned (Inl (Error ''You must be within the facility perimeter to clock in'')), st)
               else (AwaitCreate user, st)))"
| "clockIn_step v c (AwaitCreate user) st =
     (let shift = new_shift (call_env c) (user_id user) (call_input c)
      in (Returned (Inr shift),
          publish (STAFF_STATUS_CHANGED user)
            (publish (SHIFT_UPDATED shift) (shift_create shift st))))"
| "clockIn_step v c (Returned r) st = (Returned r, st)"

text \<open>
  Two requests on one store. A schedule says whose pending operation the store serves
  next.
\<close>

datatype turn = First | Second

fun interleave ::
  "verifier \<Rightarrow> call \<Rightarrow> call \<Rightarrow> turn list \<Rightarrow> phase \<times> phase \<times> store \<Rightarrow> phase \<times> phase \<times> store" where
  "interleave v c1 c2 [] cfg = cfg"
| "interleave v c1 c2 (First # ts) (p1, p2, st) =
     (case clockIn_step v c1 p1 st of (p1', st') \<Rightarrow> interleave v c1 c2 ts (p1', p2, st'))"
| "interleave v c1 c2 (Second # ts) (p1, p2, st) =
     (case clockIn_step v c2 p2 st of (p2', st') \<Rightarrow> interleave v c1 c2 ts (p1, p2', st'))"

definition open_shifts :: "store \<Rightarrow> string \<Rightarrow> Shift list" where
  "open_shifts st uid = filter (\<lambda>s. userId s = uid \<and> clockOutTime s = None) (shifts st)"

text \<open>A call running alone: its next \<open>n\<close> store operations.\<close>

fun steps :: "verifier \<Rightarrow> call \<Rightarrow> nat \<Rightarrow> phase \<times> store \<Rightarrow> phase \<times> store" where
  "steps v c 0 cfg = cfg"
| "steps v c (Suc n) (p, st) = steps v c n (clockIn_step v c p st)"

text \<open>
  \<open>firsts_before n ts\<close> counts the turns of the first call that come before turn
  \<open>n + 1\<close> of the second call. The open-shift check of the second call is its second
  turn, so \<open>3 \<le> firsts_before 1 ts\<close> says that the three operations of the first call
  are served before the second call checks for an open shift.
\<close>

fun firsts_before :: "nat \<Rightarrow> turn list \<Rightarrow> nat" where
  "firsts_before n [] = 0"
| "firsts_before n (First # ts) = Suc (firsts_before n ts)"
| "firsts_before 0 (Second # ts) = 0"
| "firsts_before (Suc n) (Second # ts) = firsts_before n ts"

text \<open>
  Two schedules: the second call reads its user first and the first call is then served
  to its end; and the two calls served in turn.
\<close>

definition second_starts_first :: "turn list" where
  "second_starts_first = [Second, First, First, First, Second, Second]"

definition alternating :: "turn list" where
  "alternating = [First, Second, First, Second, First, Second]"

subsection \<open>Perimeter settings\<close>

definition set_perimeter :: "UpdatePerimeterInput \<Rightarrow> Organization \<Rightarrow> Organization" where
  "set_perimeter input org =
     org\<lparr>locationLat := input_locationLat input,
         locationLng := input_locationLng input,
         perimeterRadius := input_perimeterRadius input\<rparr>"

text \<open>
  \<open>!user.organizationId\<close> holds of null and of the empty string; otherwise the
  organization of that id is updated.
\<close>

definition update_own_organization ::
  "string option \<Rightarrow> UpdatePerimeterInput \<Rightarrow> store \<Rightarrow> (error + Organization) \<times> store" where
  "update_own_organization oid_opt input st =
     (case oid_opt of
        None \<Rightarrow> (Inl (Error ''User has no organization assigned''), st)
      | Some oid \<Rightarrow>
          if oid = [] then (Inl (Error ''User has no organization assigned''), st)
          else organization_update oid (set_perimeter input) st)"

definition updatePerimeter ::
  "verifier \<Rightarrow> Context \<Rightarrow> UpdatePerimeterInput \<Rightarrow> store \<Rightarrow> (error + Organization) \<times> store" where
  "updatePerimeter verifyToken ctx input st =
     (case getUser verifyToken ctx st of
        Inl err \<Rightarrow> (Inl err, st)
      | Inr user \<Rightarrow>
          if role user \<noteq> Some MANAGER
          then (Inl (Error ''Access denied: Manager role required''), st)
          else update_own_organization (organizationId user) input st)"

definition updatePerimeterByAuth0Id ::
  "string \<Rightarrow> UpdatePerimeterInput \<Rightarrow> store \<Rightarrow> (error + Organization) \<times> store" where
  "updatePerimeterByAuth0Id a input st =
     (case user_findUnique_auth0Id st a of
        None \<Rightarrow> (Inl (Error ''Access denied: Manager role required''), st)
      | Some user \<Rightarrow>
          if role user \<noteq> Some MANAGER
          then (Inl (Error ''Access denied: Manager role required''), st)
          else update_own_organization (organizationId user) input st)"

subsection \<open>The GraphQL endpoint\<close>

datatype request =
    ClockIn Context ClockInput
  | ClockInByAuth0Id string ClockInput
  | ClockOut Context ClockInput
  | ClockOutByAuth0Id string ClockInput
  | UpdatePerimeter Context UpdatePerimeterInput
  | UpdatePerimeterByAuth0Id string UpdatePerimeterInput
  | CurrentShiftByAuth0Id string

datatype response =
    ShiftData Shift
  | OrganizationData Organization
  | CurrentShiftData "Shift option"
  | Errors error

definition shift_response :: "(error + Shift) \<times> store \<Rightarrow> response \<times> store" where
  "shift_response r = (case fst r of Inl err \<Rightarrow> Errors err | Inr s \<Rightarrow> ShiftData s, snd r)"

definition organization_response ::
  "(error + Organization) \<times> store \<Rightarrow> response \<times> store" where
  "organization_response r =
     (case fst r of Inl err \<Rightarrow> Errors err | Inr org \<Rightarrow> OrganizationData org, snd r)"

fun graphql :: "verifier \<Rightarrow> env \<Rightarrow> request \<Rightarrow> store \<Rightarrow> response \<times> store" where
  "graphql v e (ClockIn ctx input) st = shift_response (clockIn v e ctx input st)"
| "graphql v e (ClockInByAuth0Id a input) st = shift_response (clockInByAuth0Id e a input st)"
| "graphql v e (ClockOut ctx input) st = shift_response (clockOut v e ctx input st)"
| "graphql v e (ClockOutByAuth0Id a input) st = shift_response (clockOutByAuth0Id e a input st)"
| "graphql v e (UpdatePerimeter ctx input) st =
     organization_response (updatePerimeter v ctx input st)"
| "graphql v e (UpdatePerimeterByAuth0Id a input) st =
     organization_response (updatePerimeterByAuth0Id a input st)"
| "graphql v e (CurrentShiftByAuth0Id a) st =
     (case currentShiftByAuth0Id a st of
        Inl err \<Rightarrow> Errors err
      | Inr s \<Rightarrow> CurrentShiftData s, st)"


section \<open>The geofence tracker (src/utils/locationTracking.ts)\<close>

text \<open>
  The tracker runs in the browser. Its fields \<open>perimeterRadius\<close> and \<open>userId\<close> carry a
  prefix here, the names being taken by the store; the timers and the watch id are left
  out. What it reads from the browser is a parameter: the clock, \<open>navigator.onLine\<close>, the
  string \<open>Date.now()_Math.random()\<close>, and whether a \<open>fetch\<close> of the GraphQL endpoint gives an
  answer. The alerts a step returns are the ones it hands to \<open>publishGeofenceAlert\<close>, in
  order; the optional callbacks receive the same alerts, return, and do not touch the
  tracker.
  \<open>publishLocationUpdate\<close> and \<open>publishGeofenceAlert\<close> post to routes that only log. One
  reading of the clock serves a whole step.
\<close>

record LocationData =
  loc_lat :: real
  loc_lng :: real
  loc_timestamp :: int
  loc_accuracy :: "real option"

datatype alertType = ENTERED | EXITED | AUTO_CLOCK_OUT

record GeofenceAlert =
  alert_userId :: string
  alert_type :: alertType
  alert_location :: LocationData
  alert_timestamp :: int

record CachedLocation = LocationData +
  synced :: bool
  cached_id :: string

record LocationTracker =
  organizationLat :: real
  organizationLng :: real
  tracker_perimeterRadius :: real
  tracker_userId :: string
  lastKnownLocation :: "LocationData option"
  isInsidePerimeter :: bool
  locationCache :: "CachedLocation list"

definition maxCacheSize :: nat where
  "maxCacheSize = 100"

record GeolocationPosition =
  latitude :: real
  longitude :: real
  accuracy :: real

record browser =
  date :: int
  onLine :: bool
  random_id :: string
  fetch_resolves :: bool

text \<open>
  The constructor; \<open>stored\<close> is what \<open>localStorage\<close> holds under \<open>locationCache\<close>, which
  \<open>loadLocationCache\<close> takes as the cache.
\<close>

definition new_LocationTracker ::
  "real \<Rightarrow> real \<Rightarrow> real \<Rightarrow> string \<Rightarrow> CachedLocation list option \<Rightarrow> LocationTracker" where
  "new_LocationTracker orgLat orgLng radius uid stored =
     \<lparr>organizationLat = orgLat, organizationLng = orgLng,
      tracker_perimeterRadius = radius, tracker_userId = uid,
      lastKnownLocation = None, isInsidePerimeter = False,
      locationCache = (case stored of None \<Rightarrow> [] | Some cached \<Rightarrow> cached)\<rparr>"

definition make_alert :: "browser \<Rightarrow> LocationTracker \<Rightarrow> alertType \<Rightarrow> LocationData \<Rightarrow> GeofenceAlert" where
  "make_alert b t kind location =
     \<lparr>alert_userId = tracker_userId t, alert_type = kind,
      alert_location = location, alert_timestamp = date b\<rparr>"

text \<open>
  \<open>checkAutoClockOut\<close> posts the query \<open>currentShiftByAuth0Id\<close> to the endpoint; a failed
  fetch is caught and logged.
\<close>

definition checkAutoClockOut ::
  "verifier \<Rightarrow> env \<Rightarrow> browser \<Rightarrow> LocationTracker \<Rightarrow> LocationData \<Rightarrow> store
     \<Rightarrow> GeofenceAlert list \<times> store" where
  "checkAutoClockOut v e b t location st =
     (if \<not> fetch_resolves b then ([], st)
      else (case graphql v e (CurrentShiftByAuth0Id (tracker_userId t)) st of
              (CurrentShiftData (Some shift), st') \<Rightarrow>
                ([make_alert b t AUTO_CLOCK_OUT location], st')
            | (_, st') \<Rightarrow> ([], st')))"

definition checkGeofence ::
  "verifier \<Rightarrow> env \<Rightarrow> browser \<Rightarrow> LocationData \<Rightarrow> LocationTracker \<Rightarrow> store
     \<Rightarrow> LocationTracker \<times> GeofenceAlert list \<times> store" where
  "checkGeofence v e b location t st =
     (let wasInsidePerimeter = isInsidePerimeter t;
          isNowInsidePerimeter =
            isWithinPerimeter (loc_lat location) (loc_lng location)
              (organizationLat t) (organizationLng t) (tracker_perimeterRadius t);
          t' = t\<lparr>isInsidePerimeter := isNowInsidePerimeter\<rparr>;
          entry = (if \<not> wasInsidePerimeter \<and> isNowInsidePerimeter
                   then [make_alert b t' ENTERED location] else [])
      in if wasInsidePerimeter \<and> \<not> isNowInsidePerimeter
         then (case checkAutoClockOut v e b t' location st of
                 (auto, st') \<Rightarrow> (t', entry @ [make_alert b t' EXITED location] @ auto, st'))
         else (t', entry, st))"

text \<open>\<open>Array.prototype.slice(-n)\<close>: the last \<open>n\<close> elements, all of them when there are fewer.\<close>

definition slice_last :: "nat \<Rightarrow> 'a list \<Rightarrow> 'a list" where
  "slice_last n xs = drop (length xs - n) xs"

definition cache_entry :: "browser \<Rightarrow> LocationData \<Rightarrow> CachedLocation" where
  "cache_entry b location =
     \<lparr>loc_lat = loc_lat location, loc_lng = loc_lng location,
      loc_timestamp = loc_timestamp location, loc_accuracy = loc_accuracy location,
      synced = onLine b, cached_id = random_id b\<rparr>"

definition cacheLocation :: "browser \<Rightarrow> LocationData \<Rightarrow> LocationTracker \<Rightarrow> LocationTracker" where
  "cacheLocation b location t =
     (let pushed = locationCache t @ [cache_entry b location]
      in t\<lparr>locationCache :=
             (if length pushed > maxCacheSize then slice_last maxCacheSize pushed else pushed)\<rparr>)"

text \<open>The \<open>LocationData\<close> that \<open>handleLocationUpdate\<close> builds from a position.\<close>

definition location_of :: "browser \<Rightarrow> GeolocationPosition \<Rightarrow> LocationData" where
  "location_of b position =
     \<lparr>loc_lat = latitude position, loc_lng = longitude position,
      loc_timestamp = date b, loc_accuracy = Some (accuracy position)\<rparr>"

definition handleLocationUpdate ::
  "verifier \<Rightarrow> env \<Rightarrow> browser \<Rightarrow> GeolocationPosition \<Rightarrow> LocationTracker \<Rightarrow> store
     \<Rightarrow> LocationTracker \<times> GeofenceAlert list \<times> store" where
  "handleLocationUpdate v e b position t st =
     (let location = location_of b position
      in (case checkGeofence v e b location t st of
            (t1, alerts, st') \<Rightarrow>
              ((cacheLocation b location t1)\<lparr>lastKnownLocation := Some location\<rparr>, alerts, st')))"

text \<open>
  \<open>syncCachedLocations\<close>: the unsynced entries are uploaded in order and marked, the loop
  breaking at the first upload that fails. Whether an upload succeeds is a parameter.
\<close>

fun sync_loop :: "(CachedLocation \<Rightarrow> bool) \<Rightarrow> CachedLocation list \<Rightarrow> CachedLocation list" where
  "sync_loop uploaded [] = []"
| "sync_loop uploaded (c # cs) =
     (if synced c then c # sync_loop uploaded cs
      else if uploaded c then c\<lparr>synced := True\<rparr> # sync_loop uploaded cs
      else c # cs)"




section \<open>What the ledger keeps\<close>

text \<open>
  A shift has its hours recorded when \<open>totalHours\<close> is null exactly if \<open>clockOutTime\<close> is,
  and otherwise is what \<open>calculateShiftHours\<close> gives for the shift's own two times. The
  ledger is in order
  when row ids are unique and every shift has its hours recorded. The ORM never gives a
  created row the id of an existing one: \<open>fresh_ids\<close> says so of the ids a sequence of
  requests meets.
\<close>

definition hours_recorded :: "Shift \<Rightarrow> bool" where
  "hours_recorded s =
     (case clockOutTime s of
        None \<Rightarrow> totalHours s = None
      | Some t \<Rightarrow> totalHours s = Some (calculateShiftHours t (clockInTime s) (Some t)))"



section \<open>A facility, a care worker and a manager\<close>

text \<open>
  A small store on which the theorems below are run: one facility with a perimeter of
  100 m around (0, 0), a care worker and a manager of it, the tokens \<open>t1\<close> and \<open>t2\<close>
  that the verifier accepts for them, a position at the centre and one at the antipode.
\<close>

definition demo_verify :: verifier where
  "demo_verify token =
     (if token = ''t1'' then Some ''u1'' else if token = ''t2'' then Some ''u2'' else None)"

definition facility :: Organization where
  "facility = \<lparr>org_id = ''org1'', org_name = ''Clinic'',
                locationLat = 0, locationLng = 0, perimeterRadius = 100\<rparr>"

definition worker :: User where
  "worker = \<lparr>user_id = ''u1'', email = ''w@clinic'', user_name = ''Worker'',
              role = Some CARE_WORKER, organizationId = Some ''org1'',
              auth0Id = Some ''a1''\<rparr>"

definition manager :: User where
  "manager = \<lparr>user_id = ''u2'', email = ''m@clinic'', user_name = ''Manager'',
               role = Some MANAGER, organizationId = Some ''org1'',
               auth0Id = Some ''a2''\<rparr>"

definition demo_store :: store where
  "demo_store = \<lparr>users = [worker, manager], organizations = [facility],
                  shifts = [], published = []\<rparr>"

definition worker_ctx :: Context where
  "worker_ctx = \<lparr>authorization = Some ''Bearer t1''\<rparr>"

definition manager_ctx :: Context where
  "manager_ctx = \<lparr>authorization = Some ''Bearer t2''\<rparr>"

definition at_facility :: ClockInput where
  "at_facility = \<lparr>lat = 0, lng = 0, input_note = None\<rparr>"

definition far_away :: ClockInput where
  "far_away = \<lparr>lat = 0, lng = 180, input_note = None\<rparr>"

definition at_time :: "int \<Rightarrow> string \<Rightarrow> env" where
  "at_time t i = \<lparr>now = t, newId = i\<rparr>"

definition demo_shift :: Shift where
  "demo_shift = new_shift (at_time 32400000 ''s1'') ''u1'' at_facility"

definition clocked_in_store :: store where
  "clocked_in_store = demo_store\<lparr>shifts := [demo_shift]\<rparr>"

definition manager_shift :: Shift where
  "manager_shift = new_shift (at_time 32400000 ''s9'') ''u2'' at_facility"

definition manager_clocked_in_store :: store where
  "manager_clocked_in_store = demo_store\<lparr>shifts := [manager_shift]\<rparr>"

definition out_of_range :: UpdatePerimeterInput where
  "out_of_range = \<lparr>input_locationLat = 1000, input_locationLng = - 500,
                    input_perimeterRadius = - 5\<rparr>"


definition call_at_facility :: "string \<Rightarrow> call" where
  "call_at_facility i =
     \<lparr>call_env = at_time 32400000 i, call_context = worker_ctx, call_input = at_facility\<rparr>"

text \<open>A second request of the care worker: another header with the same token.\<close>

definition worker_ctx_again :: Context where
  "worker_ctx_again = \<lparr>authorization = Some ''Bearer t1 again''\<rparr>"

definition call_again :: "string \<Rightarrow> call" where
  "call_again i =
     \<lparr>call_env = at_time 32400001 i, call_context = worker_ctx_again, call_input = far_away\<rparr>"

text \<open>
  The worker's browser: a tracker for the facility, new or already inside, one with a full
  cache, a position at the centre and one at the antipode.
\<close>

definition demo_browser :: browser where
  "demo_browser = \<lparr>date = 40000000, onLine = True, random_id = ''40000000_0.5'',
                    fetch_resolves = True\<rparr>"

definition centre :: GeolocationPosition where
  "centre = \<lparr>latitude = 0, longitude = 0, accuracy = 5\<rparr>"


definition fresh_tracker :: LocationTracker where
  "fresh_tracker = new_LocationTracker 0 0 100 ''a1'' None"

definition tracker_inside :: LocationTracker where
  "tracker_inside = fresh_tracker\<lparr>isInsidePerimeter := True\<rparr>"

definition old_entry :: CachedLocation where
  "old_entry = \<lparr>loc_lat = 0, loc_lng = 0, loc_timestamp = 39000000, loc_accuracy = Some 5,
                 synced = False, cached_id = ''39000000_0.1''\<rparr>"

definition full_tracker :: LocationTracker where
  "full_tracker = fresh_tracker\<lparr>locationCache := replicate 100 old_entry\<rparr>"


section \<open>Facts about the distance\<close>

lemma haversine_a_same: "haversine_a la lo la lo = 0"
  by (simp add: haversine_a_def)

lemma calculateDistance_same: "calculateDistance la lo la lo = 0"
  by (simp add: calculateDistance_def haversine_a_same atan2_def)

lemma haversine_a_antipode: "haversine_a 0 180 0 0 = 1"
  by (simp add: haversine_a_def)

lemma calculateDistance_antipode: "calculateDistance 0 180 0 0 = 6371000 * pi"
  by (simp add: calculateDistance_def haversine_a_antipode atan2_def)

lemma within_at_centre: "0 \<le> r \<Longrightarrow> isWithinPerimeter la lo la lo r"
  by (simp add: isWithinPerimeter_def calculateDistance_same)

lemma outside_at_antipode: "\<not> isWithinPerimeter 0 180 0 0 100"
proof -
  have "(100::real) < 6371000 * 2" by simp
  also have "\<dots> \<le> 6371000 * pi" using pi_ge_two by simp
  finally show ?thesis
    by (simp add: isWithinPerimeter_def calculateDistance_antipode)
qed

text \<open>
  The haversine term lies between 0 and 1, so both square roots of \<open>calculateDistance\<close>
  are taken of numbers that are not negative, and the distance is not negative.
\<close>

lemma haversine_a_range:
  "0 \<le> haversine_a lat1 lng1 lat2 lng2 \<and> haversine_a lat1 lng1 lat2 lng2 \<le> 1"
proof -
  define p1 where "p1 = lat1 * pi / 180"
  define p2 where "p2 = lat2 * pi / 180"
  define s where "s = (sin ((lng2 - lng1) * pi / 180 / 2))\<^sup>2"
  define p where "p = (sin ((p2 - p1) / 2))\<^sup>2"
  have dphi: "(lat2 - lat1) * pi / 180 = p2 - p1"
    by (simp add: p1_def p2_def algebra_simps diff_divide_distrib)
  have a: "haversine_a lat1 lng1 lat2 lng2 = p + cos p1 * cos p2 * s"
    by (simp add: haversine_a_def Let_def dphi p_def s_def p1_def p2_def power2_eq_square)
  have s01: "0 \<le> s" "s \<le> 1" and p01: "0 \<le> p" "p \<le> 1"
    by (simp_all add: s_def p_def abs_square_le_1)
  have "2 * ((p2 - p1) / 2) = p2 - p1" by simp
  then have "cos (p2 - p1) = 1 - 2 * p"
    using cos_double_sin [of "(p2 - p1) / 2"] by (simp only: p_def)
  moreover have "cos (p2 - p1) + cos (p2 + p1) = 2 * (cos p1 * cos p2)"
    by (simp add: cos_add cos_diff)
  ultimately have cc: "cos p1 * cos p2 = (1 - 2 * p + cos (p2 + p1)) / 2"
    by simp
  have eq: "p + cos p1 * cos p2 * s = p * (1 - s) + s * ((1 + cos (p2 + p1)) / 2)"
    by (simp add: cc field_simps)
  have t1: "0 \<le> p * (1 - s)" "p * (1 - s) \<le> 1 - s"
    using s01 p01 by (simp_all add: mult_left_le_one_le)
  have h1: "0 \<le> (1 + cos (p2 + p1)) / 2"
    using cos_ge_minus_one [of "p2 + p1"] by argo
  have h2: "(1 + cos (p2 + p1)) / 2 \<le> 1"
    using cos_le_one [of "p2 + p1"] by argo
  note h = h1 h2
  have t2: "0 \<le> s * ((1 + cos (p2 + p1)) / 2)" "s * ((1 + cos (p2 + p1)) / 2) \<le> s"
    using s01 h by (simp_all only: mult_nonneg_nonneg mult_left_le)
  from t1 t2 show ?thesis unfolding a eq by linarith
qed

lemma calculateDistance_nonneg: "0 \<le> calculateDistance lat1 lng1 lat2 lng2"
proof -
  let ?a = "haversine_a lat1 lng1 lat2 lng2"
  have r: "0 \<le> ?a" "?a \<le> 1" using haversine_a_range by simp_all
  then have "0 \<le> sqrt ?a" "0 \<le> sqrt (1 - ?a)" by simp_all
  then have "0 \<le> atan2 (sqrt ?a) (sqrt (1 - ?a))"
    by (auto simp: atan2_def zero_le_divide_iff)
  then show ?thesis by (simp add: calculateDistance_def Let_def)
qed

section \<open>Facts about the store and the clock mutations\<close>

lemma include_organization_simps [simp]:
  "user_id (include_organization st u) = user_id u"
  "role (include_organization st u) = role u"
  "organizationId (include_organization st u) = organizationId u"
  "auth0Id (include_organization st u) = auth0Id u"
  by (simp_all add: include_organization_def)

lemma getUser_worker:
  "users st = [worker, manager] \<Longrightarrow>
   getUser demo_verify worker_ctx st = Inr (include_organization st worker)"
  by (simp add: getUser_def extractTokenFromHeader_def worker_ctx_def demo_verify_def
      user_findUnique_id_def worker_def)

lemma getUser_manager:
  "users st = [worker, manager] \<Longrightarrow>
   getUser demo_verify manager_ctx st = Inr (include_organization st manager)"
  by (simp add: getUser_def extractTokenFromHeader_def manager_ctx_def demo_verify_def
      user_findUnique_id_def worker_def manager_def)

lemma organization_worker:
  "organizations st = [facility] \<Longrightarrow>
   organization (include_organization st worker) = Some facility"
  by (simp add: include_organization_def worker_def facility_def)

lemma organization_manager:
  "organizations st = [facility] \<Longrightarrow>
   organization (include_organization st manager) = Some facility"
  by (simp add: include_organization_def manager_def facility_def)

lemma demo_store_simps [simp]:
  "users demo_store = [worker, manager]" "organizations demo_store = [facility]"
  "shifts demo_store = []" "published demo_store = []"
  "users clocked_in_store = [worker, manager]" "organizations clocked_in_store = [facility]"
  "shifts clocked_in_store = [demo_shift]"
  by (simp_all add: demo_store_def clocked_in_store_def)

lemma worker_simps [simp]:
  "user_id worker = ''u1''" "role worker = Some CARE_WORKER" "auth0Id worker = Some ''a1''"
  "user_id manager = ''u2''" "role manager = Some MANAGER" "auth0Id manager = Some ''a2''"
  "organizationId manager = Some ''org1''"
  by (simp_all add: worker_def manager_def)

lemma demo_shift_simps [simp]:
  "userId demo_shift = ''u1''" "clockOutTime demo_shift = None" "totalHours demo_shift = None"
  "clockInTime demo_shift = 32400000" "shift_id demo_shift = ''s1''"
  by (simp_all add: demo_shift_def new_shift_def at_time_def)

lemma within_fac: "within_organization at_facility facility"
  by (simp add: within_organization_def at_facility_def facility_def within_at_centre)

lemma outside_fac: "\<not> within_organization far_away facility"
  by (simp add: within_organization_def far_away_def facility_def outside_at_antipode)

lemma open_shifts_demo [simp]:
  "open_shifts demo_store uid = []" "open_shifts clocked_in_store ''u1'' = [demo_shift]"
  by (simp_all add: open_shifts_def)

lemma findFirst_demo [simp]:
  "shift_findFirst_open demo_store uid = None"
  "shift_findFirst_open clocked_in_store ''u1'' = Some demo_shift"
  by (simp_all add: shift_findFirst_open_def)

lemma clockIn_already:
  "getUser v ctx st = Inr user \<Longrightarrow> role user = Some CARE_WORKER \<Longrightarrow>
   shift_findFirst_open st (user_id user) = Some s \<Longrightarrow>
   clockIn v e ctx input st = (Inl (Error ''You are already clocked in''), st)"
  by (simp add: clockIn_def)

lemma clockIn_outside:
  "getUser v ctx st = Inr user \<Longrightarrow> role user = Some CARE_WORKER \<Longrightarrow>
   shift_findFirst_open st (user_id user) = None \<Longrightarrow> organization user = Some org \<Longrightarrow>
   \<not> within_organization input org \<Longrightarrow>
   clockIn v e ctx input st =
     (Inl (Error ''You must be within the facility perimeter to clock in''), st)"
  by (simp add: clockIn_def)

lemma clockIn_failure_frame:
  "fst (clockIn v e ctx input st) = Inl err \<Longrightarrow> snd (clockIn v e ctx input st) = st"
  by (auto simp: clockIn_def Let_def split: sum.splits option.splits if_splits)


lemma clockIn_success:
  assumes "getUser v ctx st = Inr user" "role user = Some CARE_WORKER"
    "shift_findFirst_open st (user_id user) = None" "organization user = Some org"
    "within_organization input org"
  shows "clockIn v e ctx input st =
           (Inr (new_shift e (user_id user) input),
            publish (STAFF_STATUS_CHANGED user)
              (publish (SHIFT_UPDATED (new_shift e (user_id user) input))
                 (shift_create (new_shift e (user_id user) input) st)))"
  using assms by (simp add: clockIn_def Let_def)


lemma findFirst_open_shifts:
  "shift_findFirst_open st uid = None \<longleftrightarrow> open_shifts st uid = []"
  by (auto simp: shift_findFirst_open_def open_shifts_def find_None_iff filter_empty_conv)

lemma clockOut_failure_frame:
  "fst (clockOut v e ctx input st) = Inl err \<Longrightarrow> snd (clockOut v e ctx input st) = st"
  by (auto simp: clockOut_def Let_def split: sum.splits option.splits if_splits)

section \<open>Clock-in rejections\<close>

text \<open>
  Claim C4, amended. For an authenticated care worker, \<open>clockIn\<close> fails with
  \<open>You are already clocked in\<close> (AlreadyClockedIn) whenever the worker has an open shift;
  when the worker has none and the coordinate is outside the perimeter of the worker's
  organization, it fails with \<open>You must be within the facility perimeter to clock in\<close>
  (OutsidePerimeter); and whatever the caller, a failed \<open>clockIn\<close> leaves the store, and so
  the stored shifts, as they were.
\<close>

theorem clockIn_rejections:
  "(getUser v ctx st = Inr user \<and> role user = Some CARE_WORKER \<and>
      open_shifts st (user_id user) \<noteq> []
      \<longrightarrow> clockIn v e ctx input st = (Inl (Error ''You are already clocked in''), st)) \<and>
   (getUser v ctx st = Inr user \<and> role user = Some CARE_WORKER \<and>
      open_shifts st (user_id user) = [] \<and> organization user = Some org \<and>
      \<not> within_organization input org
      \<longrightarrow> clockIn v e ctx input st =
            (Inl (Error ''You must be within the facility perimeter to clock in''), st)) \<and>
   (fst (clockIn v e ctx input st) = Inl err
      \<longrightarrow> snd (clockIn v e ctx input st) = st \<and> shifts (snd (clockIn v e ctx input st)) = shifts st)"
proof (intro conjI impI)
  assume a: "getUser v ctx st = Inr user \<and> role user = Some CARE_WORKER \<and>
      open_shifts st (user_id user) \<noteq> []"
  then have "shift_findFirst_open st (user_id user) \<noteq> None"
    by (simp add: findFirst_open_shifts)
  then obtain s where "shift_findFirst_open st (user_id user) = Some s" by blast
  with a show "clockIn v e ctx input st = (Inl (Error ''You are already clocked in''), st)"
    by (simp add: clockIn_already)
next
  assume a: "getUser v ctx st = Inr user \<and> role user = Some CARE_WORKER \<and>
      open_shifts st (user_id user) = [] \<and> organization user = Some org \<and>
      \<not> within_organization input org"
  then have "shift_findFirst_open st (user_id user) = None"
    by (simp add: findFirst_open_shifts)
  with a show "clockIn v e ctx input st =
            (Inl (Error ''You must be within the facility perimeter to clock in''), st)"
    by (simp add: clockIn_outside)
next
  assume "fst (clockIn v e ctx input st) = Inl err"
  then show "snd (clockIn v e ctx input st) = st" by (rule clockIn_failure_frame)
  then show "shifts (snd (clockIn v e ctx input st)) = shifts st" by simp
qed

text \<open>The theorem at the demo store: each rejection, and the shifts left alone.\<close>

theorem clockIn_rejections_witness:
  "clockIn demo_verify (at_time 0 ''s2'') worker_ctx far_away clocked_in_store =
     (Inl (Error ''You are already clocked in''), clocked_in_store) \<and>
   clockIn demo_verify (at_time 0 ''s2'') worker_ctx far_away demo_store =
     (Inl (Error ''You must be within the facility perimeter to clock in''), demo_store) \<and>
   shifts (snd (clockIn demo_verify (at_time 0 ''s2'') worker_ctx far_away demo_store)) = []"
proof -
  let ?e = "at_time 0 ''s2''"
  have g1: "getUser demo_verify worker_ctx clocked_in_store =
              Inr (include_organization clocked_in_store worker)"
    by (simp add: getUser_worker)
  have g2: "getUser demo_verify worker_ctx demo_store =
              Inr (include_organization demo_store worker)"
    by (simp add: getUser_worker)
  have o2: "organization (include_organization demo_store worker) = Some facility"
    by (simp add: organization_worker)
  have first: "clockIn demo_verify ?e worker_ctx far_away clocked_in_store =
     (Inl (Error ''You are already clocked in''), clocked_in_store)"
    using clockIn_rejections [of demo_verify worker_ctx clocked_in_store
        "include_organization clocked_in_store worker" ?e far_away] g1
    by simp
  have second: "clockIn demo_verify ?e worker_ctx far_away demo_store =
     (Inl (Error ''You must be within the facility perimeter to clock in''), demo_store)"
    using clockIn_rejections [of demo_verify worker_ctx demo_store
        "include_organization demo_store worker" ?e far_away facility] g2 o2 outside_fac
    by simp
  have third: "shifts (snd (clockIn demo_verify ?e worker_ctx far_away demo_store)) = []"
    using clockIn_rejections [of demo_verify worker_ctx demo_store
        "include_organization demo_store worker" ?e far_away facility
        "Error ''You must be within the facility perimeter to clock in''"] second
    by simp
  from first second third show ?thesis by blast
qed

text \<open>
  Claim C4 as stated fails where both conditions hold: the care worker of the demo store
  has an open shift and asks to clock in from outside the perimeter; the open shift is
  checked first, and the failure is AlreadyClockedIn, not OutsidePerimeter.
\<close>

theorem clockIn_outside_with_open_shift:
  "\<not> within_organization far_away facility \<and>
   organization (include_organization clocked_in_store worker) = Some facility \<and>
   getUser demo_verify worker_ctx clocked_in_store =
     Inr (include_organization clocked_in_store worker) \<and>
   fst (clockIn demo_verify (at_time 0 ''s2'') worker_ctx far_away clocked_in_store) =
     Inl (Error ''You are already clocked in'') \<and>
   fst (clockIn demo_verify (at_time 0 ''s2'') worker_ctx far_away clocked_in_store) \<noteq>
     Inl (Error ''You must be within the facility perimeter to clock in'')"
proof -
  have g: "getUser demo_verify worker_ctx clocked_in_store =
              Inr (include_organization clocked_in_store worker)"
    by (simp add: getUser_worker)
  have "clockIn demo_verify (at_time 0 ''s2'') worker_ctx far_away clocked_in_store =
     (Inl (Error ''You are already clocked in''), clocked_in_store)"
    by (rule clockIn_already [OF g]) simp_all
  with g show ?thesis
    by (simp add: outside_fac organization_worker)
qed

section \<open>Clock-out rejections\<close>

lemma clockOut_not_clocked_in:
  "getUser v ctx st = Inr user \<Longrightarrow> role user = Some CARE_WORKER \<Longrightarrow>
   shift_findFirst_open st (user_id user) = None \<Longrightarrow>
   clockOut v e ctx input st = (Inl (Error ''You are not currently clocked in''), st)"
  by (simp add: clockOut_def)

lemma clockOut_outside:
  "getUser v ctx st = Inr user \<Longrightarrow> role user = Some CARE_WORKER \<Longrightarrow>
   shift_findFirst_open st (user_id user) = Some cur \<Longrightarrow> organization user = Some org \<Longrightarrow>
   \<not> within_organization input org \<Longrightarrow>
   clockOut v e ctx input st =
     (Inl (Error ''You must be within the facility perimeter to clock out''), st)"
  by (simp add: clockOut_def)

text \<open>
  Claim C6, amended. For an authenticated care worker, \<open>clockOut\<close> fails with
  \<open>You are not currently clocked in\<close> (NoActiveShift) whenever the worker has no open
  shift; when the worker has one and the perimeter check on the coordinate supplied at
  clock-out time is false, it fails with \<open>You must be within the facility perimeter to clock
  out\<close> (OutsidePerimeter) and the open shift stays open: a worker outside the perimeter
  cannot close their shift.
\<close>

theorem clockOut_rejections:
  "(getUser v ctx st = Inr user \<and> role user = Some CARE_WORKER \<and>
      open_shifts st (user_id user) = []
      \<longrightarrow> clockOut v e ctx input st = (Inl (Error ''You are not currently clocked in''), st)) \<and>
   (getUser v ctx st = Inr user \<and> role user = Some CARE_WORKER \<and>
      open_shifts st (user_id user) \<noteq> [] \<and> organization user = Some org \<and>
      \<not> within_organization input org
      \<longrightarrow> clockOut v e ctx input st =
            (Inl (Error ''You must be within the facility perimeter to clock out''), st) \<and>
          open_shifts (snd (clockOut v e ctx input st)) (user_id user) = open_shifts st (user_id user))"
proof (intro conjI impI)
  assume a: "getUser v ctx st = Inr user \<and> role user = Some CARE_WORKER \<and>
      open_shifts st (user_id user) = []"
  then have "shift_findFirst_open st (user_id user) = None"
    by (simp add: findFirst_open_shifts)
  with a show "clockOut v e ctx input st = (Inl (Error ''You are not currently clocked in''), st)"
    by (simp add: clockOut_not_clocked_in)
next
  assume a: "getUser v ctx st = Inr user \<and> role user = Some CARE_WORKER \<and>
      open_shifts st (user_id user) \<noteq> [] \<and> organization user = Some org \<and>
      \<not> within_organization input org"
  then have "shift_findFirst_open st (user_id user) \<noteq> None"
    by (simp add: findFirst_open_shifts)
  then obtain cur where "shift_findFirst_open st (user_id user) = Some cur" by blast
  with a show r: "clockOut v e ctx input st =
            (Inl (Error ''You must be within the facility perimeter to clock out''), st)"
    by (simp add: clockOut_outside)
  show "open_shifts (snd (clockOut v e ctx input st)) (user_id user) = open_shifts st (user_id user)"
    by (simp add: r)
qed

text \<open>The theorem at the demo store, without and with an open shift.\<close>

theorem clockOut_rejections_witness:
  "clockOut demo_verify (at_time 0 ''s2'') worker_ctx at_facility demo_store =
     (Inl (Error ''You are not currently clocked in''), demo_store) \<and>
   clockOut demo_verify (at_time 0 ''s2'') worker_ctx far_away clocked_in_store =
     (Inl (Error ''You must be within the facility perimeter to clock out''), clocked_in_store) \<and>
   open_shifts (snd (clockOut demo_verify (at_time 0 ''s2'') worker_ctx far_away clocked_in_store)) ''u1''
     = [demo_shift]"
proof -
  let ?e = "at_time 0 ''s2''"
  have g1: "getUser demo_verify worker_ctx clocked_in_store =
              Inr (include_organization clocked_in_store worker)"
    by (simp add: getUser_worker)
  have g2: "getUser demo_verify worker_ctx demo_store =
              Inr (include_organization demo_store worker)"
    by (simp add: getUser_worker)
  have o1: "organization (include_organization clocked_in_store worker) = Some facility"
    by (simp add: organization_worker)
  have first: "clockOut demo_verify ?e worker_ctx at_facility demo_store =
     (Inl (Error ''You are not currently clocked in''), demo_store)"
    using clockOut_rejections [of demo_verify worker_ctx demo_store
        "include_organization demo_store worker" ?e at_facility] g2
    by simp
  have second: "clockOut demo_verify ?e worker_ctx far_away clocked_in_store =
     (Inl (Error ''You must be within the facility perimeter to clock out''), clocked_in_store) \<and>
     open_shifts (snd (clockOut demo_verify ?e worker_ctx far_away clocked_in_store)) ''u1''
       = [demo_shift]"
    using clockOut_rejections [of demo_verify worker_ctx clocked_in_store
        "include_organization clocked_in_store worker" ?e far_away facility] g1 o1 outside_fac
    by simp
  from first second show ?thesis by blast
qed

text \<open>
  Claim C6 as stated fails where both conditions hold: the care worker of the demo store
  has no open shift and asks to clock out from outside the perimeter; the open shift is
  looked up first, and the failure is NoActiveShift, not OutsidePerimeter.
\<close>

theorem clockOut_outside_without_shift:
  "\<not> within_organization far_away facility \<and>
   organization (include_organization demo_store worker) = Some facility \<and>
   getUser demo_verify worker_ctx demo_store = Inr (include_organization demo_store worker) \<and>
   fst (clockOut demo_verify (at_time 0 ''s2'') worker_ctx far_away demo_store) =
     Inl (Error ''You are not currently clocked in'') \<and>
   fst (clockOut demo_verify (at_time 0 ''s2'') worker_ctx far_away demo_store) \<noteq>
     Inl (Error ''You must be within the facility perimeter to clock out'')"
proof -
  have g: "getUser demo_verify worker_ctx demo_store =
              Inr (include_organization demo_store worker)"
    by (simp add: getUser_worker)
  have "clockOut demo_verify (at_time 0 ''s2'') worker_ctx far_away demo_store =
     (Inl (Error ''You are not currently clocked in''), demo_store)"
    by (rule clockOut_not_clocked_in [OF g]) simp_all
  with g show ?thesis
    by (simp add: outside_fac organization_worker)
qed

section \<open>The care-worker gate\<close>

lemma clockIn_role_gate:
  "getUser v ctx st = Inr user \<Longrightarrow> role user \<noteq> Some CARE_WORKER \<Longrightarrow>
   clockIn v e ctx input st = (Inl (Error ''Only care workers can clock in''), st)"
  by (simp add: clockIn_def)

lemma clockOut_role_gate:
  "getUser v ctx st = Inr user \<Longrightarrow> role user \<noteq> Some CARE_WORKER \<Longrightarrow>
   clockOut v e ctx input st = (Inl (Error ''Only care workers can clock out''), st)"
  by (simp add: clockOut_def)

lemma clockInByAuth0Id_success:
  "user_findUnique_auth0Id st a = Some user \<Longrightarrow>
   shift_findFirst_open st (user_id user) = None \<Longrightarrow> organization user = Some org \<Longrightarrow>
   within_organization input org \<Longrightarrow>
   clockInByAuth0Id e a input st =
     (Inr (new_shift e (user_id user) input),
      publish (STAFF_STATUS_CHANGED user)
        (publish (SHIFT_UPDATED (new_shift e (user_id user) input))
           (shift_create (new_shift e (user_id user) input) st)))"
  by (simp add: clockInByAuth0Id_def Let_def)

lemma clockOutByAuth0Id_success:
  "user_findUnique_auth0Id st a = Some user \<Longrightarrow>
   shift_findFirst_open st (user_id user) = Some cur \<Longrightarrow> organization user = Some org \<Longrightarrow>
   within_organization input org \<Longrightarrow>
   clockOutByAuth0Id e a input st =
     (Inr (close_shift (now e) (calculateShiftHours (now e) (clockInTime cur) (Some (now e))) input cur),
      publish (STAFF_STATUS_CHANGED user)
        (publish (SHIFT_UPDATED (close_shift (now e) (calculateShiftHours (now e) (clockInTime cur) (Some (now e))) input cur))
           (shift_update (shift_id cur) (close_shift (now e) (calculateShiftHours (now e) (clockInTime cur) (Some (now e))) input) st)))"
  by (simp add: clockOutByAuth0Id_def Let_def)

lemma findUnique_auth0Id_manager:
  "users st = [worker, manager] \<Longrightarrow>
   user_findUnique_auth0Id st ''a2'' = Some (include_organization st manager)"
  by (simp add: user_findUnique_auth0Id_def)


lemma manager_store_simps [simp]:
  "users manager_clocked_in_store = [worker, manager]"
  "organizations manager_clocked_in_store = [facility]"
  "shifts manager_clocked_in_store = [manager_shift]"
  "userId manager_shift = ''u2''" "clockOutTime manager_shift = None"
  by (simp_all add: manager_clocked_in_store_def manager_shift_def new_shift_def)

text \<open>
  Claim C9. For an authenticated caller whose role is not \<open>CARE_WORKER\<close>, the
  context-authenticated \<open>clockIn\<close> and \<open>clockOut\<close> fail with \<open>Only care workers can clock
  in/out\<close> whatever the coordinate, the perimeter and the shifts are, and leave the store
  as it was. \<open>clockInByAuth0Id\<close> and \<open>clockOutByAuth0Id\<close> have no such gate: for a user
  of any other role, inside the perimeter, the first creates a shift and the second closes
  the open one.
\<close>

theorem care_worker_gate:
  "(getUser v ctx st = Inr user \<and> role user \<noteq> Some CARE_WORKER
      \<longrightarrow> clockIn v e ctx input st = (Inl (Error ''Only care workers can clock in''), st) \<and>
          clockOut v e ctx input st = (Inl (Error ''Only care workers can clock out''), st)) \<and>
   (user_findUnique_auth0Id st a = Some member \<and> role member \<noteq> Some CARE_WORKER \<and>
      shift_findFirst_open st (user_id member) = None \<and> organization member = Some org \<and>
      within_organization input org
      \<longrightarrow> fst (clockInByAuth0Id e a input st) = Inr (new_shift e (user_id member) input) \<and>
          shifts (snd (clockInByAuth0Id e a input st)) =
            shifts st @ [new_shift e (user_id member) input]) \<and>
   (user_findUnique_auth0Id st a = Some member \<and> role member \<noteq> Some CARE_WORKER \<and>
      shift_findFirst_open st (user_id member) = Some cur \<and> organization member = Some org \<and>
      within_organization input org
      \<longrightarrow> (\<exists>closed. fst (clockOutByAuth0Id e a input st) = Inr closed \<and>
            clockOutTime closed = Some (now e)))"
  by (auto simp: clockIn_role_gate clockOut_role_gate clockInByAuth0Id_success
      clockOutByAuth0Id_success publish_def shift_create_def close_shift_def)

text \<open>The theorem at the manager of the demo store.\<close>

theorem care_worker_gate_witness:
  "clockIn demo_verify (at_time 0 ''s2'') manager_ctx at_facility demo_store =
     (Inl (Error ''Only care workers can clock in''), demo_store) \<and>
   clockOut demo_verify (at_time 0 ''s2'') manager_ctx at_facility demo_store =
     (Inl (Error ''Only care workers can clock out''), demo_store) \<and>
   shifts (snd (clockInByAuth0Id (at_time 0 ''s2'') ''a2'' at_facility demo_store)) =
     [new_shift (at_time 0 ''s2'') ''u2'' at_facility] \<and>
   map_sum id clockOutTime
     (fst (clockOutByAuth0Id (at_time 7 ''s2'') ''a2'' at_facility manager_clocked_in_store)) =
     Inr (Some 7)"
proof -
  let ?m = "include_organization demo_store manager"
  let ?m' = "include_organization manager_clocked_in_store manager"
  have g: "getUser demo_verify manager_ctx demo_store = Inr ?m"
    by (simp add: getUser_manager)
  have f: "user_findUnique_auth0Id demo_store ''a2'' = Some ?m"
    by (simp add: findUnique_auth0Id_manager)
  have f': "user_findUnique_auth0Id manager_clocked_in_store ''a2'' = Some ?m'"
    by (simp add: findUnique_auth0Id_manager)
  have o: "organization ?m = Some facility" "organization ?m' = Some facility"
    by (simp_all add: organization_manager)
  have s': "shift_findFirst_open manager_clocked_in_store ''u2'' = Some manager_shift"
    by (simp add: shift_findFirst_open_def)
  have gate: "clockIn demo_verify (at_time 0 ''s2'') manager_ctx at_facility demo_store =
       (Inl (Error ''Only care workers can clock in''), demo_store) \<and>
     clockOut demo_verify (at_time 0 ''s2'') manager_ctx at_facility demo_store =
       (Inl (Error ''Only care workers can clock out''), demo_store)"
    using care_worker_gate [of demo_verify manager_ctx demo_store ?m "at_time 0 ''s2''"
        at_facility] g
    by simp
  have by_id_in: "shifts (snd (clockInByAuth0Id (at_time 0 ''s2'') ''a2'' at_facility demo_store)) =
     [new_shift (at_time 0 ''s2'') ''u2'' at_facility]"
    using care_worker_gate [of demo_verify manager_ctx demo_store ?m "at_time 0 ''s2''"
        at_facility "''a2''" ?m facility] f o within_fac
    by simp
  have by_id_out: "map_sum id clockOutTime
     (fst (clockOutByAuth0Id (at_time 7 ''s2'') ''a2'' at_facility manager_clocked_in_store)) =
     Inr (Some 7)"
    using care_worker_gate [of demo_verify manager_ctx manager_clocked_in_store ?m'
        "at_time 7 ''s2''" at_facility "''a2''" ?m' facility manager_shift] f' o within_fac s'
    by (auto simp: at_time_def)
  from gate by_id_in by_id_out show ?thesis by blast
qed

section \<open>Updating the perimeter\<close>

lemma organization_update_found:
  "find (\<lambda>org. org_id org = oid) (organizations st) = Some org \<Longrightarrow>
   organization_update oid f st =
     (Inr (f org),
      st\<lparr>organizations := map (\<lambda>org. if org_id org = oid then f org else org) (organizations st)\<rparr>)"
  by (simp add: organization_update_def)

lemma organization_update_frame:
  "users (snd (organization_update oid f st)) = users st \<and>
   shifts (snd (organization_update oid f st)) = shifts st \<and>
   published (snd (organization_update oid f st)) = published st \<and>
   organizations (snd (organization_update oid f st)) =
     (if find (\<lambda>org. org_id org = oid) (organizations st) = None then organizations st
      else map (\<lambda>org. if org_id org = oid then f org else org) (organizations st))"
  by (simp add: organization_update_def split: option.splits)

lemma updatePerimeter_cases:
  "updatePerimeter v ctx input st =
     (case getUser v ctx st of
        Inl err \<Rightarrow> (Inl err, st)
      | Inr user \<Rightarrow>
          if role user \<noteq> Some MANAGER
          then (Inl (Error ''Access denied: Manager role required''), st)
          else (case organizationId user of
                  None \<Rightarrow> (Inl (Error ''User has no organization assigned''), st)
                | Some oid \<Rightarrow>
                    if oid = [] then (Inl (Error ''User has no organization assigned''), st)
                    else (case find (\<lambda>org. org_id org = oid) (organizations st) of
                            None \<Rightarrow> (Inl RecordNotFound, st)
                          | Some org \<Rightarrow>
                              (Inr (set_perimeter input org),
                               st\<lparr>organizations :=
                                    map (\<lambda>org. if org_id org = oid then set_perimeter input org
                                               else org) (organizations st)\<rparr>))))"
  by (simp add: updatePerimeter_def update_own_organization_def organization_update_def
      split: sum.splits option.splits)

text \<open>
  Claim C10. A successful \<open>updatePerimeter\<close> is one by a manager whose organization
  exists; it returns that organization with \<open>locationLat\<close>, \<open>locationLng\<close> and
  \<open>perimeterRadius\<close> set to the supplied values and its other fields as they were, stores
  it in place of the old row, and leaves the other organizations, the users, the shifts
  and the published events unchanged. For a manager whose organization exists the call
  succeeds with any supplied values, and whether a call succeeds never depends on them:
  there is no range validation.
\<close>

theorem updatePerimeter_effect:
  "(fst (updatePerimeter v ctx input st) = Inr org'
      \<longrightarrow> (\<exists>user oid org.
             getUser v ctx st = Inr user \<and> role user = Some MANAGER \<and>
             organizationId user = Some oid \<and>
             find (\<lambda>org. org_id org = oid) (organizations st) = Some org \<and>
             org' = org\<lparr>locationLat := input_locationLat input,
                        locationLng := input_locationLng input,
                        perimeterRadius := input_perimeterRadius input\<rparr> \<and>
             org_id org' = org_id org \<and> org_name org' = org_name org \<and>
             organizations (snd (updatePerimeter v ctx input st)) =
               map (\<lambda>other. if org_id other = oid
                         then other\<lparr>locationLat := input_locationLat input,
                                 locationLng := input_locationLng input,
                                 perimeterRadius := input_perimeterRadius input\<rparr>
                         else other) (organizations st)) \<and>
          shifts (snd (updatePerimeter v ctx input st)) = shifts st \<and>
          users (snd (updatePerimeter v ctx input st)) = users st \<and>
          published (snd (updatePerimeter v ctx input st)) = published st) \<and>
   (getUser v ctx st = Inr manager_user \<and> role manager_user = Some MANAGER \<and>
    organizationId manager_user = Some own \<and> own \<noteq> [] \<and>
    find (\<lambda>org. org_id org = own) (organizations st) = Some current
      \<longrightarrow> fst (updatePerimeter v ctx input st) =
            Inr (current\<lparr>locationLat := input_locationLat input,
                         locationLng := input_locationLng input,
                         perimeterRadius := input_perimeterRadius input\<rparr>)) \<and>
   isl (fst (updatePerimeter v ctx input st)) = isl (fst (updatePerimeter v ctx input2 st))"
  by (auto simp: updatePerimeter_cases set_perimeter_def split: sum.splits option.splits if_splits)

lemma updatePerimeter_demo:
  "updatePerimeter demo_verify manager_ctx out_of_range clocked_in_store =
     (Inr (set_perimeter out_of_range facility),
      clocked_in_store\<lparr>organizations := [set_perimeter out_of_range facility]\<rparr>)"
  by (simp add: updatePerimeter_cases getUser_manager facility_def)

text \<open>
  The theorem at the demo store: a latitude of 1000, a longitude of -500 and a radius of
  -5 are stored as given, and the open shift stays.
\<close>

theorem updatePerimeter_effect_witness:
  "updatePerimeter demo_verify manager_ctx out_of_range clocked_in_store =
     (Inr \<lparr>org_id = ''org1'', org_name = ''Clinic'',
           locationLat = 1000, locationLng = - 500, perimeterRadius = - 5\<rparr>,
      clocked_in_store\<lparr>organizations :=
         [\<lparr>org_id = ''org1'', org_name = ''Clinic'',
           locationLat = 1000, locationLng = - 500, perimeterRadius = - 5\<rparr>]\<rparr>) \<and>
   shifts (snd (updatePerimeter demo_verify manager_ctx out_of_range clocked_in_store)) =
     [demo_shift]"
proof -
  have run: "updatePerimeter demo_verify manager_ctx out_of_range clocked_in_store =
     (Inr (set_perimeter out_of_range facility),
      clocked_in_store\<lparr>organizations := [set_perimeter out_of_range facility]\<rparr>)"
    by (rule updatePerimeter_demo)
  have val: "set_perimeter out_of_range facility =
      \<lparr>org_id = ''org1'', org_name = ''Clinic'',
        locationLat = 1000, locationLng = - 500, perimeterRadius = - 5\<rparr>"
    by (simp add: set_perimeter_def out_of_range_def facility_def)
  have "shifts (snd (updatePerimeter demo_verify manager_ctx out_of_range clocked_in_store)) =
     shifts clocked_in_store"
    using updatePerimeter_effect [of demo_verify manager_ctx out_of_range clocked_in_store
        "set_perimeter out_of_range facility"] run
    by simp
  with run val show ?thesis by simp
qed

section \<open>Shift hours\<close>

subsection \<open>Rounding to a double\<close>

lemma round_even_of_int [simp]: "round_even (of_int k) = k"
  by (simp add: round_even_def)



lemma pow2_powr: "pow2 k = 2 powr of_int k"
  by (simp add: pow2_def powr_int)

lemma pow2_pos [simp]: "0 < pow2 k"
  by (simp add: pow2_def)

lemma pow2_nonneg [simp]: "0 \<le> pow2 k"
  using pow2_pos [of k] by (rule less_imp_le)



lemma to_double_eval:
  assumes "x \<noteq> 0" "pow2 e \<le> \<bar>x\<bar>" "\<bar>x\<bar> < pow2 (e + 1)"
  shows "to_double x = of_int (round_even (x / pow2 (e - 52))) * pow2 (e - 52)"
proof -
  from assms have "\<lfloor>log 2 \<bar>x\<bar>\<rfloor> = e"
    by (simp add: floor_log_eq_powr_iff pow2_powr)
  with assms(1) show ?thesis by (simp add: to_double_def Let_def)
qed






lemma calculateShiftHours_clock:
  "calculateShiftHours c i (Some t) = calculateShiftHours c' i (Some t)"
  by (simp add: calculateShiftHours_def)

subsection \<open>The hours of some durations\<close>






lemma to_double_ints:
  "to_double (- 3600000) = - 3600000" "to_double (- 1) = - 1" "to_double (- 100) = - 100"
  "to_double 30600000 = 30600000" "to_double 850 = 850" "to_double (17 / 2) = 17 / 2"
  "to_double 18000 = 18000"
  by (subst to_double_eval [where e = 21], simp_all add: pow2_def round_even_def)
    (subst to_double_eval [where e = 0], simp_all add: pow2_def round_even_def,
     subst to_double_eval [where e = 6], simp_all add: pow2_def round_even_def,
     subst to_double_eval [where e = 24], simp_all add: pow2_def round_even_def,
     subst to_double_eval [where e = 9], simp_all add: pow2_def round_even_def,
     subst to_double_eval [where e = 3], simp_all add: pow2_def round_even_def,
     subst to_double_eval [where e = 14], simp_all add: pow2_def round_even_def)



lemma to_double_1_200: "to_double (1 / 200) = 5764607523034235 / 1152921504606846976"
  by (subst to_double_eval [where e = "- 8"]) (simp_all add: pow2_def round_even_def)

lemma to_double_1_100: "to_double (1 / 100) = 5764607523034235 / 576460752303423488"
  by (subst to_double_eval [where e = "- 7"]) (simp_all add: pow2_def round_even_def)

lemma to_double_half_product:
  "to_double (144115188075855875 / 288230376151711744) = 1 / 2"
  by (subst to_double_eval [where e = "- 1"]) (simp_all add: pow2_def round_even_def)

lemma calculateShiftHours_tie_up: "calculateShiftHours c 0 (Some 18000) = 5764607523034235 / 576460752303423488"
  by (simp add: calculateShiftHours_def Let_def to_double_ints to_double_1_200 to_double_half_product
      Math_round_def to_double_1_100)



subsection \<open>The ledger\<close>

lemma hours_recorded_new [simp]: "hours_recorded (new_shift e uid input)"
  by (simp add: hours_recorded_def new_shift_def)

lemma hours_recorded_close [simp]:
  "hours_recorded (close_shift t (calculateShiftHours c (clockInTime s) (Some t)) input s)"
  by (simp add: hours_recorded_def close_shift_def calculateShiftHours_clock [of c _ _ t])

lemma shift_id_close [simp]: "shift_id (close_shift t h input s) = shift_id s"
  by (simp add: close_shift_def)





lemma store_frame_simps [simp]:
  "users (publish ev st) = users st" "organizations (publish ev st) = organizations st"
  "shifts (publish ev st) = shifts st"
  "users (shift_create s st) = users st" "organizations (shift_create s st) = organizations st"
  "shifts (shift_create s st) = shifts st @ [s]"
  "users (shift_update sid f st) = users st"
  "organizations (shift_update sid f st) = organizations st"
  "shifts (shift_update sid f st) = map (\<lambda>s. if shift_id s = sid then f s else s) (shifts st)"
  by (simp_all add: publish_def shift_create_def shift_update_def)

lemma new_shift_simps [simp]:
  "userId (new_shift e uid input) = uid" "clockOutTime (new_shift e uid input) = None"
  "clockInTime (new_shift e uid input) = now e" "shift_id (new_shift e uid input) = newId e"
  "totalHours (new_shift e uid input) = None"
  by (simp_all add: new_shift_def)

lemma close_shift_simps [simp]:
  "clockOutTime (close_shift t h input s) = Some t" "totalHours (close_shift t h input s) = Some h"
  "clockInTime (close_shift t h input s) = clockInTime s" "userId (close_shift t h input s) = userId s"
  by (simp_all add: close_shift_def)






section \<open>Two clock-in requests of one worker\<close>

text \<open>Run alone, the three steps are the resolver.\<close>

lemma clockIn_steps:
  "clockIn_step v c AwaitGetUser st = (p1, st1) \<Longrightarrow> clockIn_step v c p1 st1 = (p2, st2) \<Longrightarrow>
   clockIn_step v c p2 st2 = (p3, st3) \<Longrightarrow>
   (p3, st3) = (Returned (fst (clockIn v (call_env c) (call_context c) (call_input c) st)),
                snd (clockIn v (call_env c) (call_context c) (call_input c) st))"
  by (auto simp: clockIn_def Let_def split: sum.splits option.splits if_splits)

lemma getUser_frame:
  "users st' = users st \<Longrightarrow> organizations st' = organizations st \<Longrightarrow>
   getUser v ctx st' = getUser v ctx st"
proof -
  assume a: "users st' = users st" "organizations st' = organizations st"
  from a(2) have io: "include_organization st' = include_organization st"
    by (simp add: fun_eq_iff include_organization_def split: option.splits)
  have "user_findUnique_id st' uid = user_findUnique_id st uid" for uid
    by (simp only: user_findUnique_id_def io a(1))
  then show ?thesis
    by (simp add: getUser_def cong: option.case_cong)
qed

lemma clockIn_Inr:
  assumes "clockIn v e ctx input st = (Inr s, st')"
  obtains user where "getUser v ctx st = Inr user" "role user = Some CARE_WORKER"
    "s = new_shift e (user_id user) input"
    "st' = publish (STAFF_STATUS_CHANGED user) (publish (SHIFT_UPDATED s) (shift_create s st))"
  using assms
  by (auto simp: clockIn_def Let_def split: sum.splits option.splits if_splits)

lemma steps_Returned [simp]: "steps v c n (Returned r, st) = (Returned r, st)"
  by (induction n) simp_all

lemma steps_Suc_right:
  "steps v c (Suc n) cfg = (case steps v c n cfg of (p, st) \<Rightarrow> clockIn_step v c p st)"
proof (induction n arbitrary: cfg)
  case 0
  then show ?case by (cases cfg) simp
next
  case (Suc n)
  obtain p st where cfg: "cfg = (p, st)" by (cases cfg)
  show ?case
    using Suc.IH [of "clockIn_step v c p st"] by (simp add: cfg del: clockIn_step.simps)
qed

lemma steps_add: "steps v c (m + n) cfg = steps v c n (steps v c m cfg)"
proof (induction m arbitrary: cfg)
  case 0
  then show ?case by simp
next
  case (Suc m)
  obtain p st where cfg: "cfg = (p, st)" by (cases cfg)
  show ?case using Suc.IH [of "clockIn_step v c p st"] by (simp add: cfg del: clockIn_step.simps)
qed

lemma steps_three:
  "steps v c 3 (AwaitGetUser, st) =
     (Returned (fst (clockIn v (call_env c) (call_context c) (call_input c) st)),
      snd (clockIn v (call_env c) (call_context c) (call_input c) st))"
proof -
  obtain p1 st1 where a: "clockIn_step v c AwaitGetUser st = (p1, st1)" by fastforce
  obtain p2 st2 where b: "clockIn_step v c p1 st1 = (p2, st2)" by fastforce
  obtain p3 st3 where c: "clockIn_step v c p2 st2 = (p3, st3)" by fastforce
  have "steps v c 3 (AwaitGetUser, st) = (p3, st3)"
    by (simp add: numeral_3_eq_3 a b c del: clockIn_step.simps)
  with clockIn_steps [OF a b c] show ?thesis by simp
qed

lemma steps_at_least_three:
  "3 \<le> n \<Longrightarrow>
   steps v c n (AwaitGetUser, st) =
     (Returned (fst (clockIn v (call_env c) (call_context c) (call_input c) st)),
      snd (clockIn v (call_env c) (call_context c) (call_input c) st))"
proof -
  assume "3 \<le> n"
  then obtain m where n: "n = 3 + m" using le_Suc_ex by blast
  show ?thesis unfolding n steps_add steps_three by simp
qed

lemma clockIn_step_frame:
  "users (snd (clockIn_step v c p st)) = users st \<and>
   organizations (snd (clockIn_step v c p st)) = organizations st"
  by (cases p) (auto simp: Let_def publish_def shift_create_def split: sum.splits option.splits)

lemma steps_frame:
  "users (snd (steps v c n (p, st))) = users st \<and>
   organizations (snd (steps v c n (p, st))) = organizations st"
proof (induction n arbitrary: p st)
  case 0
  then show ?case by simp
next
  case (Suc n)
  obtain p' st' where s: "clockIn_step v c p st = (p', st')" by fastforce
  with clockIn_step_frame [of v c p st] Suc.IH [of p' st'] show ?case
    by (simp del: clockIn_step.simps)
qed

lemma first_step_frame:
  "users st' = users st \<Longrightarrow> organizations st' = organizations st \<Longrightarrow>
   clockIn_step v c AwaitGetUser st' = (fst (clockIn_step v c AwaitGetUser st), st')"
  using getUser_frame [of st' st v "call_context c"]
  by (auto split: sum.splits)

lemma first_step_store: "snd (clockIn_step v c AwaitGetUser st) = st"
  by (auto split: sum.splits)

text \<open>Once the first call has returned, only the second call's turns count.\<close>

lemma interleave_first_returned:
  "interleave v c1 c2 ts (Returned r, p2, st) =
     (Returned r, steps v c2 (count_list ts Second) (p2, st))"
proof (induction ts arbitrary: p2 st)
  case Nil
  then show ?case by simp
next
  case (Cons t ts)
  show ?case
  proof (cases t)
    case First
    with Cons show ?thesis by simp
  next
    case Second
    obtain p2' st' where s: "clockIn_step v c2 p2 st = (p2', st')" by fastforce
    with Cons [of p2' st'] Second show ?thesis by (simp del: clockIn_step.simps)
  qed
qed

lemma interleave_after_second_started:
  assumes "3 \<le> k + firsts_before 0 ts"
  shows "interleave v c1 c2 ts
           (fst (steps v c1 k (AwaitGetUser, st)), q2, snd (steps v c1 k (AwaitGetUser, st))) =
         (fst (steps v c1 3 (AwaitGetUser, st)),
          steps v c2 (count_list ts Second) (q2, snd (steps v c1 3 (AwaitGetUser, st))))"
  using assms
proof (induction ts arbitrary: k)
  case Nil
  then have "3 \<le> k" by simp
  then show ?case by (simp add: steps_at_least_three steps_three)
next
  case (Cons t ts)
  show ?case
  proof (cases t)
    case First
    obtain p st' where s: "steps v c1 k (AwaitGetUser, st) = (p, st')" by fastforce
    obtain p' st'' where s': "clockIn_step v c1 p st' = (p', st'')" by fastforce
    from s s' have n: "steps v c1 (Suc k) (AwaitGetUser, st) = (p', st'')"
      by (simp add: steps_Suc_right del: clockIn_step.simps steps.simps)
    from Cons.prems First have "3 \<le> Suc k + firsts_before 0 ts" by simp
    from Cons.IH [OF this] n s s' First show ?thesis
      by (simp del: clockIn_step.simps steps.simps)
  next
    case Second
    with Cons.prems have "3 \<le> k" by simp
    then show ?thesis
      by (simp add: steps_at_least_three steps_three interleave_first_returned Second
          del: clockIn_step.simps steps.simps interleave.simps)
  qed
qed

lemma interleave_first_before_check:
  assumes "3 \<le> k + firsts_before 1 ts"
  shows "interleave v c1 c2 ts
           (fst (steps v c1 k (AwaitGetUser, st)), AwaitGetUser,
            snd (steps v c1 k (AwaitGetUser, st))) =
         (fst (steps v c1 3 (AwaitGetUser, st)),
          steps v c2 (count_list ts Second)
            (AwaitGetUser, snd (steps v c1 3 (AwaitGetUser, st))))"
  using assms
proof (induction ts arbitrary: k)
  case Nil
  then have "3 \<le> k" by simp
  then show ?case by (simp add: steps_at_least_three steps_three)
next
  case (Cons t ts)
  show ?case
  proof (cases t)
    case First
    obtain p st' where s: "steps v c1 k (AwaitGetUser, st) = (p, st')" by fastforce
    obtain p' st'' where s': "clockIn_step v c1 p st' = (p', st'')" by fastforce
    from s s' have n: "steps v c1 (Suc k) (AwaitGetUser, st) = (p', st'')"
      by (simp add: steps_Suc_right del: clockIn_step.simps steps.simps)
    from Cons.prems First have "3 \<le> Suc k + firsts_before 1 ts" by simp
    from Cons.IH [OF this] n s s' First show ?thesis
      by (simp del: clockIn_step.simps steps.simps)
  next
    case Second
    let ?stk = "snd (steps v c1 k (AwaitGetUser, st))"
    let ?st3 = "snd (steps v c1 3 (AwaitGetUser, st))"
    let ?q = "fst (clockIn_step v c2 AwaitGetUser st)"
    have k: "clockIn_step v c2 AwaitGetUser ?stk = (?q, ?stk)"
      by (rule first_step_frame) (simp_all add: steps_frame)
    have three: "clockIn_step v c2 AwaitGetUser ?st3 = (?q, ?st3)"
      by (rule first_step_frame) (simp_all add: steps_frame)
    from Cons.prems Second have "3 \<le> k + firsts_before 0 ts" by simp
    from interleave_after_second_started [OF this, of v c1 c2 st ?q]
    have "interleave v c1 c2 (t # ts)
           (fst (steps v c1 k (AwaitGetUser, st)), AwaitGetUser, ?stk) =
         (fst (steps v c1 3 (AwaitGetUser, st)), steps v c2 (count_list ts Second) (?q, ?st3))"
      by (simp add: Second k del: clockIn_step.simps steps.simps)
    also have "steps v c2 (count_list ts Second) (?q, ?st3) =
        steps v c2 (count_list (t # ts) Second) (AwaitGetUser, ?st3)"
      by (simp add: Second three del: clockIn_step.simps)
    finally show ?thesis .
  qed
qed

lemma interleave_completes_first:
  assumes "3 \<le> firsts_before 1 ts"
  shows "interleave v c1 c2 ts (AwaitGetUser, AwaitGetUser, st) =
     (Returned (fst (clockIn v (call_env c1) (call_context c1) (call_input c1) st)),
      steps v c2 (count_list ts Second)
        (AwaitGetUser, snd (clockIn v (call_env c1) (call_context c1) (call_input c1) st)))"
proof -
  from assms have "3 \<le> 0 + firsts_before 1 ts" by simp
  from interleave_first_before_check [OF this, of v c1 c2 st]
  show ?thesis unfolding steps_three by (simp del: clockIn_step.simps)
qed

lemma getUser_user_id:
  assumes "getUser v ctx st = Inr u"
  obtains uid where "user_findUnique_id st uid = Some u" "user_id u = uid"
proof -
  from assms obtain uid where f: "user_findUnique_id st uid = Some u"
    by (auto simp: getUser_def split: option.splits)
  then obtain x where "find (\<lambda>u. user_id u = uid) (users st) = Some x"
    "u = include_organization st x"
    by (auto simp: user_findUnique_id_def)
  then have "user_id u = uid"
    by (auto simp: find_Some_iff)
  with f show ?thesis by (rule that)
qed

lemma getUser_same_worker:
  assumes "getUser v ctx1 st = Inr u1" "getUser v ctx2 st = Inr u2" "user_id u2 = user_id u1"
  shows "u2 = u1"
proof -
  from assms(1) obtain i1 where 1: "user_findUnique_id st i1 = Some u1" "user_id u1 = i1"
    by (rule getUser_user_id)
  from assms(2) obtain i2 where 2: "user_findUnique_id st i2 = Some u2" "user_id u2 = i2"
    by (rule getUser_user_id)
  from 1(2) 2(2) assms(3) have "i2 = i1" by simp
  with 1(1) 2(1) show ?thesis by simp
qed

lemma second_call_rejected:
  assumes "clockIn v e1 ctx1 input1 st = (Inr s, st')"
    and "getUser v ctx1 st = Inr u1" "getUser v (call_context c2) st = Inr u2"
    and "user_id u2 = user_id u1" and "2 \<le> n"
  shows "steps v c2 n (AwaitGetUser, st') = (Returned (Inl (Error ''You are already clocked in'')), st')"
    and "shifts st' = shifts st @ [s]"
proof -
  from assms(1) obtain user where u: "getUser v ctx1 st = Inr user" "role user = Some CARE_WORKER"
    "s = new_shift e1 (user_id user) input1"
    "st' = publish (STAFF_STATUS_CHANGED user) (publish (SHIFT_UPDATED s) (shift_create s st))"
    by (rule clockIn_Inr)
  from u(1) assms(2) have [simp]: "user = u1" by simp
  from assms(2-4) have same: "u2 = u1" by (rule getUser_same_worker)
  from u(4) show sh: "shifts st' = shifts st @ [s]" by simp
  from u(4) have "getUser v (call_context c2) st' = getUser v (call_context c2) st"
    by (intro getUser_frame) simp_all
  with assms(3) same have g: "getUser v (call_context c2) st' = Inr u1" by simp
  have "s \<in> set (shifts st')" "userId s = user_id u1" "clockOutTime s = None"
    using u(3) by (simp_all add: sh)
  then have "shift_findFirst_open st' (user_id u1) \<noteq> None"
    by (auto simp: shift_findFirst_open_def find_None_iff)
  then obtain x where x: "shift_findFirst_open st' (user_id u1) = Some x" by blast
  from g u(2) have one: "clockIn_step v c2 AwaitGetUser st' = (AwaitFindFirst u1, st')"
    by simp
  from x have two: "clockIn_step v c2 (AwaitFindFirst u1) st' =
      (Returned (Inl (Error ''You are already clocked in'')), st')"
    by simp
  from assms(5) have "n = Suc (Suc (n - 2))" by arith
  then obtain m where n: "n = Suc (Suc m)" ..
  show "steps v c2 n (AwaitGetUser, st') = (Returned (Inl (Error ''You are already clocked in'')), st')"
    by (simp add: n one two del: clockIn_step.simps)
qed

lemma call_at_facility_simps [simp]:
  "call_env (call_at_facility i) = at_time 32400000 i"
  "call_context (call_at_facility i) = worker_ctx"
  "call_input (call_at_facility i) = at_facility"
  by (simp_all add: call_at_facility_def)

lemma worker_first_step:
  "users st = [worker, manager] \<Longrightarrow>
   clockIn_step demo_verify (call_at_facility i) AwaitGetUser st =
     (AwaitFindFirst (include_organization st worker), st)"
  by (simp add: getUser_worker)

lemma worker_second_step:
  "organization user = Some facility \<Longrightarrow> shift_findFirst_open st (user_id user) = None \<Longrightarrow>
   clockIn_step demo_verify (call_at_facility i) (AwaitFindFirst user) st = (AwaitCreate user, st)"
  by (simp add: within_fac)

lemma getUser_worker_again:
  "users st = [worker, manager] \<Longrightarrow>
   getUser demo_verify worker_ctx_again st = Inr (include_organization st worker)"
  by (simp add: getUser_def extractTokenFromHeader_def worker_ctx_again_def demo_verify_def
      user_findUnique_id_def worker_def)

text \<open>
  Claim C1, amended. Let two \<open>clockIn\<close> calls be made for the same worker: both
  contexts authenticate, and to users of the same id. In every run in which the first
  call has completed (its three store operations are served) before the second call
  makes its open-shift check, and in which the second call makes that check, if the
  first call succeeds then the second fails with \<open>You are already clocked in\<close>
  (AlreadyClockedIn), leaves the store as the first call left it, and the store has
  gained exactly the one shift of the first call.
\<close>

theorem clockIn_one_after_the_other:
  "getUser v (call_context c1) st = Inr u1 \<and> getUser v (call_context c2) st = Inr u2 \<and>
   user_id u2 = user_id u1 \<and>
   3 \<le> firsts_before 1 ts \<and> 2 \<le> count_list ts Second \<and>
   interleave v c1 c2 ts (AwaitGetUser, AwaitGetUser, st) = (Returned (Inr s), p2, st')
   \<longrightarrow> (p2, st') = (Returned (Inl (Error ''You are already clocked in'')),
                     snd (clockIn v (call_env c1) (call_context c1) (call_input c1) st)) \<and>
       shifts st' = shifts st @ [s]"
proof
  assume a: "getUser v (call_context c1) st = Inr u1 \<and> getUser v (call_context c2) st = Inr u2 \<and>
   user_id u2 = user_id u1 \<and>
   3 \<le> firsts_before 1 ts \<and> 2 \<le> count_list ts Second \<and>
   interleave v c1 c2 ts (AwaitGetUser, AwaitGetUser, st) = (Returned (Inr s), p2, st')"
  let ?r1 = "clockIn v (call_env c1) (call_context c1) (call_input c1) st"
  from a have "3 \<le> firsts_before 1 ts" by simp
  then have run: "interleave v c1 c2 ts (AwaitGetUser, AwaitGetUser, st) =
      (Returned (fst ?r1), steps v c2 (count_list ts Second) (AwaitGetUser, snd ?r1))"
    by (rule interleave_completes_first)
  with a have r1: "?r1 = (Inr s, snd ?r1)"
    and rest: "steps v c2 (count_list ts Second) (AwaitGetUser, snd ?r1) = (p2, st')"
    by (simp_all add: prod_eq_iff)
  from a have g1: "getUser v (call_context c1) st = Inr u1"
    and g2: "getUser v (call_context c2) st = Inr u2"
    and same: "user_id u2 = user_id u1" and n: "2 \<le> count_list ts Second" by simp_all
  from second_call_rejected [OF r1 g1 g2 same n] rest
  show "(p2, st') = (Returned (Inl (Error ''You are already clocked in'')), snd ?r1) \<and>
       shifts st' = shifts st @ [s]"
    by simp
qed

text \<open>
  The theorem for two calls of the care worker at the demo store, under different
  headers and from different positions, the second call reading its user before the first
  call starts.
\<close>

theorem clockIn_one_after_the_other_witness:
  "interleave demo_verify (call_at_facility ''s1'') (call_again ''s2'') second_starts_first
     (AwaitGetUser, AwaitGetUser, demo_store) =
   (Returned (Inr (new_shift (at_time 32400000 ''s1'') ''u1'' at_facility)),
    Returned (Inl (Error ''You are already clocked in'')),
    snd (clockIn demo_verify (at_time 32400000 ''s1'') worker_ctx at_facility demo_store)) \<and>
   shifts (snd (clockIn demo_verify (at_time 32400000 ''s1'') worker_ctx at_facility demo_store)) =
     [new_shift (at_time 32400000 ''s1'') ''u1'' at_facility]"
proof -
  let ?u = "include_organization demo_store worker"
  let ?c1 = "call_at_facility ''s1''" and ?c2 = "call_again ''s2''"
  let ?s1 = "new_shift (at_time 32400000 ''s1'') ''u1'' at_facility"
  let ?r1 = "clockIn demo_verify (at_time 32400000 ''s1'') worker_ctx at_facility demo_store"
  let ?run = "interleave demo_verify ?c1 ?c2 second_starts_first
     (AwaitGetUser, AwaitGetUser, demo_store)"
  have in1: "fst ?r1 = Inr ?s1"
    using clockIn_success [of demo_verify worker_ctx demo_store ?u facility at_facility
        "at_time 32400000 ''s1''"]
    by (simp add: getUser_worker organization_worker within_fac)
  have sched: "3 \<le> firsts_before 1 second_starts_first"
    "2 \<le> count_list second_starts_first Second"
    by (simp_all add: second_starts_first_def)
  have f1: "fst ?run = Returned (Inr ?s1)"
    unfolding interleave_completes_first [OF sched(1)] using in1 by simp
  have run: "?run = (Returned (Inr ?s1), fst (snd ?run), snd (snd ?run))"
    by (simp only: prod_eq_iff f1 fst_conv snd_conv simp_thms)
  have g1: "getUser demo_verify (call_context ?c1) demo_store = Inr ?u"
    by (simp add: getUser_worker)
  have g2: "getUser demo_verify (call_context ?c2) demo_store = Inr ?u"
    by (simp add: call_again_def getUser_worker_again)
  have "getUser demo_verify (call_context ?c1) demo_store = Inr ?u \<and>
      getUser demo_verify (call_context ?c2) demo_store = Inr ?u \<and>
      user_id ?u = user_id ?u \<and>
      3 \<le> firsts_before 1 second_starts_first \<and> 2 \<le> count_list second_starts_first Second \<and>
      ?run = (Returned (Inr ?s1), fst (snd ?run), snd (snd ?run))"
    by (intro conjI refl g1 g2 sched run)
  with clockIn_one_after_the_other [of demo_verify ?c1 demo_store ?u ?c2 ?u
      second_starts_first ?s1 "fst (snd ?run)" "snd (snd ?run)"]
  have "(fst (snd ?run), snd (snd ?run)) =
      (Returned (Inl (Error ''You are already clocked in'')),
       snd (clockIn demo_verify (call_env ?c1) (call_context ?c1) (call_input ?c1) demo_store)) \<and>
      shifts (snd (snd ?run)) = shifts demo_store @ [?s1]"
    by (rule mp)
  then have concl: "(fst (snd ?run), snd (snd ?run)) =
      (Returned (Inl (Error ''You are already clocked in'')), snd ?r1) \<and>
      shifts (snd (snd ?run)) = shifts demo_store @ [?s1]"
    by (simp only: call_at_facility_simps)
  then have a: "fst (snd ?run) = Returned (Inl (Error ''You are already clocked in''))"
    "snd (snd ?run) = snd ?r1" by simp_all
  from concl a(2) have sh: "shifts (snd ?r1) = [?s1]" by simp
  have "?run = (Returned (Inr ?s1), Returned (Inl (Error ''You are already clocked in'')), snd ?r1)"
    by (simp only: prod_eq_iff f1 a fst_conv snd_conv simp_thms)
  from this sh show ?thesis by (rule conjI)
qed

text \<open>
  Claim C1 as stated fails: the resolver takes no lock and opens no transaction, and the
  \<open>findFirst\<close> and the \<open>create\<close> are two store operations. Served in turn, two calls of
  the care worker both find no open shift, both succeed, and the worker has two open
  shifts.
\<close>

theorem two_clockIns_interleaved:
  "fst (interleave demo_verify (call_at_facility ''s1'') (call_at_facility ''s2'') alternating
          (AwaitGetUser, AwaitGetUser, demo_store)) =
     Returned (Inr (new_shift (at_time 32400000 ''s1'') ''u1'' at_facility)) \<and>
   fst (snd (interleave demo_verify (call_at_facility ''s1'') (call_at_facility ''s2'') alternating
          (AwaitGetUser, AwaitGetUser, demo_store))) =
     Returned (Inr (new_shift (at_time 32400000 ''s2'') ''u1'' at_facility)) \<and>
   open_shifts (snd (snd (interleave demo_verify (call_at_facility ''s1'') (call_at_facility ''s2'')
          alternating (AwaitGetUser, AwaitGetUser, demo_store)))) ''u1'' =
     [new_shift (at_time 32400000 ''s1'') ''u1'' at_facility,
      new_shift (at_time 32400000 ''s2'') ''u1'' at_facility]"
proof -
  let ?u = "include_organization demo_store worker"
  let ?c1 = "call_at_facility ''s1''" and ?c2 = "call_at_facility ''s2''"
  let ?s1 = "new_shift (at_time 32400000 ''s1'') ''u1'' at_facility"
  let ?s2 = "new_shift (at_time 32400000 ''s2'') ''u1'' at_facility"
  let ?st1 = "publish (STAFF_STATUS_CHANGED ?u) (publish (SHIFT_UPDATED ?s1) (shift_create ?s1 demo_store))"
  let ?st2 = "publish (STAFF_STATUS_CHANGED ?u) (publish (SHIFT_UPDATED ?s2) (shift_create ?s2 ?st1))"
  have a1: "clockIn_step demo_verify ?c1 AwaitGetUser demo_store = (AwaitFindFirst ?u, demo_store)"
    and b1: "clockIn_step demo_verify ?c2 AwaitGetUser demo_store = (AwaitFindFirst ?u, demo_store)"
    by (simp_all add: worker_first_step del: clockIn_step.simps)
  have a2: "clockIn_step demo_verify ?c1 (AwaitFindFirst ?u) demo_store = (AwaitCreate ?u, demo_store)"
    and b2: "clockIn_step demo_verify ?c2 (AwaitFindFirst ?u) demo_store = (AwaitCreate ?u, demo_store)"
    by (simp_all add: worker_second_step organization_worker del: clockIn_step.simps)
  have a3: "clockIn_step demo_verify ?c1 (AwaitCreate ?u) demo_store = (Returned (Inr ?s1), ?st1)"
    and b3: "clockIn_step demo_verify ?c2 (AwaitCreate ?u) ?st1 = (Returned (Inr ?s2), ?st2)"
    by (simp_all add: Let_def)
  have run: "interleave demo_verify ?c1 ?c2 alternating (AwaitGetUser, AwaitGetUser, demo_store) =
      (Returned (Inr ?s1), Returned (Inr ?s2), ?st2)"
    by (simp add: alternating_def a1 b1 a2 b2 a3 b3 del: clockIn_step.simps)
  have "open_shifts ?st2 ''u1'' = [?s1, ?s2]"
    by (simp add: open_shifts_def)
  with run show ?thesis by simp
qed

section \<open>The perimeter check\<close>

text \<open>
  Claim C7. \<open>isWithinPerimeter\<close> is true if and only if the distance from the point to the
  centre is at most the radius; the boundary is included: a point whose distance is
  exactly the radius is inside.
\<close>

theorem perimeter_inclusive:
  "(isWithinPerimeter userLat userLng facilityLat facilityLng radius \<longleftrightarrow>
      calculateDistance userLat userLng facilityLat facilityLng \<le> radius) \<and>
   isWithinPerimeter userLat userLng facilityLat facilityLng
     (calculateDistance userLat userLng facilityLat facilityLng)"
  by (simp add: isWithinPerimeter_def)

text \<open>
  The specification's facility at (40.7128, -74.0060): its centre is inside a radius of
  100 m and of 0 m; the antipode of (0, 0) is outside 100 m and inside the radius that
  equals its distance.
\<close>

theorem perimeter_inclusive_witness:
  "isWithinPerimeter 40.7128 (- 74.0060) 40.7128 (- 74.0060) 100 \<and>
   isWithinPerimeter 40.7128 (- 74.0060) 40.7128 (- 74.0060) 0 \<and>
   \<not> isWithinPerimeter 0 180 0 0 100 \<and>
   isWithinPerimeter 0 180 0 0 (6371000 * pi)"
proof -
  have "isWithinPerimeter 40.7128 (- 74.0060) 40.7128 (- 74.0060) 100"
    using perimeter_inclusive [of "40.7128" "- 74.0060" "40.7128" "- 74.0060" 100]
    by (simp add: calculateDistance_same)
  moreover have "isWithinPerimeter 40.7128 (- 74.0060) 40.7128 (- 74.0060) 0"
    using perimeter_inclusive [of "40.7128" "- 74.0060" "40.7128" "- 74.0060" 0]
    by (simp add: calculateDistance_same)
  moreover have "isWithinPerimeter 0 180 0 0 (6371000 * pi)"
    using perimeter_inclusive [of 0 180 0 0 0]
    by (simp only: calculateDistance_antipode)
  ultimately show ?thesis
    by (simp add: outside_at_antipode)
qed

section \<open>Facts about the tracker\<close>

lemma graphql_query_frame [simp]: "snd (graphql v e (CurrentShiftByAuth0Id a) st) = st"
  by simp




lemma checkAutoClockOut_alerts:
  "map alert_type (fst (checkAutoClockOut v e b t location st)) =
     (if fetch_resolves b \<and>
         (\<exists>shift. currentShiftByAuth0Id (tracker_userId t) st = Inr (Some shift))
      then [AUTO_CLOCK_OUT] else [])"
  by (auto simp: checkAutoClockOut_def make_alert_def split: sum.splits option.splits)

lemma checkGeofence_state:
  "isInsidePerimeter (fst (checkGeofence v e b location t st)) =
     isWithinPerimeter (loc_lat location) (loc_lng location)
       (organizationLat t) (organizationLng t) (tracker_perimeterRadius t)"
  by (auto simp: checkGeofence_def Let_def split: prod.splits)

lemma checkGeofence_alerts:
  "map alert_type (fst (snd (checkGeofence v e b location t st))) =
     (let inside = isWithinPerimeter (loc_lat location) (loc_lng location)
                     (organizationLat t) (organizationLng t) (tracker_perimeterRadius t)
      in if \<not> isInsidePerimeter t \<and> inside then [ENTERED]
         else if isInsidePerimeter t \<and> \<not> inside
         then EXITED #
              (if fetch_resolves b \<and>
                  (\<exists>shift. currentShiftByAuth0Id (tracker_userId t) st = Inr (Some shift))
               then [AUTO_CLOCK_OUT] else [])
         else [])"
proof -
  let ?t' = "t\<lparr>isInsidePerimeter :=
            isWithinPerimeter (loc_lat location) (loc_lng location)
              (organizationLat t) (organizationLng t) (tracker_perimeterRadius t)\<rparr>"
  have "map alert_type (fst (checkAutoClockOut v e b ?t' location st)) =
     (if fetch_resolves b \<and>
         (\<exists>shift. currentShiftByAuth0Id (tracker_userId t) st = Inr (Some shift))
      then [AUTO_CLOCK_OUT] else [])"
    by (simp add: checkAutoClockOut_alerts)
  then show ?thesis
    by (auto simp: checkGeofence_def Let_def make_alert_def split: prod.splits)
qed

lemma handleLocationUpdate_state:
  "isInsidePerimeter (fst (handleLocationUpdate v e b position t st)) =
     isWithinPerimeter (latitude position) (longitude position)
       (organizationLat t) (organizationLng t) (tracker_perimeterRadius t)"
  using checkGeofence_state [of v e b "location_of b position" t st]
  by (auto simp: handleLocationUpdate_def Let_def cacheLocation_def location_of_def
      split: prod.splits)

lemma handleLocationUpdate_alerts:
  "map alert_type (fst (snd (handleLocationUpdate v e b position t st))) =
     (let inside = isWithinPerimeter (latitude position) (longitude position)
                     (organizationLat t) (organizationLng t) (tracker_perimeterRadius t)
      in if \<not> isInsidePerimeter t \<and> inside then [ENTERED]
         else if isInsidePerimeter t \<and> \<not> inside
         then EXITED #
              (if fetch_resolves b \<and>
                  (\<exists>shift. currentShiftByAuth0Id (tracker_userId t) st = Inr (Some shift))
               then [AUTO_CLOCK_OUT] else [])
         else [])"
  using checkGeofence_alerts [of v e b "location_of b position" t st]
  by (auto simp: handleLocationUpdate_def Let_def location_of_def split: prod.splits)

lemma new_tracker_simps [simp]:
  "isInsidePerimeter (new_LocationTracker orgLat orgLng radius uid stored) = False"
  "organizationLat (new_LocationTracker orgLat orgLng radius uid stored) = orgLat"
  "organizationLng (new_LocationTracker orgLat orgLng radius uid stored) = orgLng"
  "tracker_perimeterRadius (new_LocationTracker orgLat orgLng radius uid stored) = radius"
  "tracker_userId (new_LocationTracker orgLat orgLng radius uid stored) = uid"
  by (simp_all add: new_LocationTracker_def)

lemma centre_inside: "isWithinPerimeter (latitude centre) (longitude centre) 0 0 100"
  by (simp add: centre_def within_at_centre)


lemma tracker_inside_simps [simp]:
  "isInsidePerimeter tracker_inside" "organizationLat tracker_inside = 0"
  "organizationLng tracker_inside = 0" "tracker_perimeterRadius tracker_inside = 100"
  "tracker_userId tracker_inside = ''a1''"
  by (simp_all add: tracker_inside_def fresh_tracker_def)







lemma sync_loop_length [simp]: "length (sync_loop uploaded cs) = length cs"
  by (induction cs) simp_all








lemma full_tracker_cache [simp]: "locationCache full_tracker = replicate 100 old_entry"
  by (simp add: full_tracker_def)

section \<open>The first sample\<close>

text \<open>
  Claim C2, amended. For the first location sample a tracker processes, its state becomes
  whatever \<open>isWithinPerimeter\<close> returns for that sample and no EXITED event is emitted; the
  tracker starts as outside, so a first sample inside the perimeter emits ENTERED, and a
  first sample outside emits nothing.
\<close>

theorem first_sample:
  "isInsidePerimeter
     (fst (handleLocationUpdate v e b position
             (new_LocationTracker orgLat orgLng radius uid stored) st)) =
     isWithinPerimeter (latitude position) (longitude position) orgLat orgLng radius \<and>
   map alert_type
     (fst (snd (handleLocationUpdate v e b position
                  (new_LocationTracker orgLat orgLng radius uid stored) st))) =
     (if isWithinPerimeter (latitude position) (longitude position) orgLat orgLng radius
      then [ENTERED] else [])"
  by (simp add: handleLocationUpdate_state handleLocationUpdate_alerts Let_def)

text \<open>
  Claim C2 as stated fails: \<open>isInsidePerimeter\<close> is initialised to false and there is no
  notion of a first sample, so a new tracker whose first sample is at the centre of the
  perimeter emits ENTERED.
\<close>

theorem first_sample_inside_enters:
  "map alert_type
     (fst (snd (handleLocationUpdate demo_verify (at_time 40000000 ''s2'') demo_browser centre
                  fresh_tracker demo_store))) = [ENTERED]"
  by (simp add: handleLocationUpdate_alerts fresh_tracker_def centre_inside Let_def)

section \<open>The auto-clock-out alert\<close>



section \<open>The recency buffer\<close>



end
